theory Spec2Isabelle
  imports Complex_Main
begin

section \<open>JavaScript values handled by the speaker client\<close>

text \<open>
  The transport resolves with whatever \<open>JSON.parse\<close> yields, with the raw response
  text when parsing fails, or with \<open>null\<close> for an empty body.  The client then probes
  the value with property reads and truthiness tests.  A JavaScript number is modelled
  as a real (every finite double is one; \<open>NaN\<close> and the infinities are outside the
  model).
\<close>

datatype jsval =
    JUndefined
  | JNull
  | JBool bool
  | JNum real
  | JStr string
  | JArr "jsval list"
  | JObj "(string \<times> jsval) list"

text \<open>Truthiness, as tested by \<open>if (x)\<close>, \<open>x && y\<close> and \<open>!x\<close>.\<close>

fun truthy :: "jsval \<Rightarrow> bool" where
  "truthy JUndefined = False"
| "truthy JNull = False"
| "truthy (JBool b) = b"
| "truthy (JNum r) = (r \<noteq> 0)"
| "truthy (JStr s) = (s \<noteq> [])"
| "truthy (JArr xs) = True"
| "truthy (JObj kvs) = True"

text \<open>
  The property read \<open>v.k\<close> for the field names the client uses.  Every such read in
  the modelled code has a receiver that was tested truthy before, so the \<open>TypeError\<close>
  of a read on \<open>null\<close> or \<open>undefined\<close> never arises; on a string, number, boolean or
  array these names are absent and the read gives \<open>undefined\<close>.
\<close>

fun js_get :: "jsval \<Rightarrow> string \<Rightarrow> jsval" where
  "js_get (JObj kvs) k = (case map_of kvs k of Some x \<Rightarrow> x | None \<Rightarrow> JUndefined)"
| "js_get v k = JUndefined"

text \<open>The indexed read \<open>v[0]\<close>.\<close>

fun js_index0 :: "jsval \<Rightarrow> jsval" where
  "js_index0 (JArr xs) = (case xs of [] \<Rightarrow> JUndefined | x # rest \<Rightarrow> x)"
| "js_index0 (JStr s) = (case s of [] \<Rightarrow> JUndefined | ch # rest \<Rightarrow> JStr [ch])"
| "js_index0 (JObj kvs) = (case map_of kvs ''0'' of Some x \<Rightarrow> x | None \<Rightarrow> JUndefined)"
| "js_index0 v = JUndefined"

text \<open>\<open>String.prototype.toLowerCase\<close> on the ASCII letters.\<close>

definition lower_char :: "char \<Rightarrow> char" where
  "lower_char ch =
     (case map_of (zip ''ABCDEFGHIJKLMNOPQRSTUVWXYZ'' ''abcdefghijklmnopqrstuvwxyz'') ch of
        Some l \<Rightarrow> l
      | None \<Rightarrow> ch)"

definition toLowerCase :: "string \<Rightarrow> string" where
  "toLowerCase s = map lower_char s"

text \<open>\<open>Math.round\<close>: the nearest integer, a tie going up.\<close>

definition Math_round :: "real \<Rightarrow> int" where
  "Math_round x = \<lfloor>x + 1 / 2\<rfloor>"

section \<open>Errors\<close>

text \<open>
  \<open>Error m\<close> is a thrown \<open>new Error(m)\<close>, \<open>TypeError m\<close> the runtime's own exception
  (a method call on a value that has no such method, an object that cannot be converted
  to a primitive value).
\<close>

datatype error = Error string | TypeError string

fun show_error :: "error \<Rightarrow> string" where
  "show_error (Error m) = ''Error: '' @ m"
| "show_error (TypeError m) = ''TypeError: '' @ m"

section \<open>Conversions of the JavaScript runtime\<close>

text \<open>
  The declared type \<open>number\<close> is not checked at run time: a value read from a response
  is used as it comes, and arithmetic, \<open>Math.round\<close> and the ordering tests convert it.
  A number at run time is \<open>NaN\<close>, an infinity, or finite.
\<close>

datatype jsnum = NaN | NegInf | Fin real | PosInf

text \<open>
  The two conversions between strings and numbers belong to the runtime, not to the
  program: they are taken as given, and every result below holds for whatever they are.
\<close>

record js_runtime =
  StringToNumber :: "string \<Rightarrow> jsnum"
  NumberToString :: "real \<Rightarrow> string"

text \<open>\<open>Array.prototype.join\<close> with the separator \<open>","\<close>.\<close>

fun join_strings :: "string list \<Rightarrow> string" where
  "join_strings [] = []"
| "join_strings [s] = s"
| "join_strings (s # t # ss) = s @ '','' @ join_strings (t # ss)"

text \<open>
  \<open>ToString\<close>.  An array joins the strings of its elements, \<open>null\<close> and
  \<open>undefined\<close> counting as empty; a parsed object is \<open>"[object Object]"\<close>, unless it
  has a property \<open>toString\<close> of its own, which after \<open>JSON.parse\<close> is never a
  function: then the conversion throws a \<open>TypeError\<close> (\<open>None\<close>).
\<close>

fun ToString :: "js_runtime \<Rightarrow> jsval \<Rightarrow> string option" where
  "ToString R JUndefined = Some ''undefined''"
| "ToString R JNull = Some ''null''"
| "ToString R (JBool b) = Some (if b then ''true'' else ''false'')"
| "ToString R (JNum r) = Some (NumberToString R r)"
| "ToString R (JStr s) = Some s"
| "ToString R (JArr xs) =
     map_option join_strings
       (those (map (\<lambda>x. if x = JUndefined \<or> x = JNull then Some [] else ToString R x) xs))"
| "ToString R (JObj kvs) =
     (if map_of kvs ''toString'' = None then Some ''[object Object]'' else None)"

text \<open>
  \<open>ToNumber\<close>, with the conversion of an array or an object to a primitive value
  first (its \<open>valueOf\<close> gives the object itself, so it is its string that counts).
\<close>

fun ToNumber :: "js_runtime \<Rightarrow> jsval \<Rightarrow> jsnum option" where
  "ToNumber R JUndefined = Some NaN"
| "ToNumber R JNull = Some (Fin 0)"
| "ToNumber R (JBool b) = Some (Fin (if b then 1 else 0))"
| "ToNumber R (JNum r) = Some (Fin r)"
| "ToNumber R (JStr s) = Some (StringToNumber R s)"
| "ToNumber R (JArr xs) = map_option (StringToNumber R) (ToString R (JArr xs))"
| "ToNumber R (JObj kvs) = map_option (StringToNumber R) (ToString R (JObj kvs))"

text \<open>\<open>n > 0\<close>, false for \<open>NaN\<close>.\<close>

fun js_gt0 :: "jsnum \<Rightarrow> bool" where
  "js_gt0 (Fin r) = (0 < r)"
| "js_gt0 PosInf = True"
| "js_gt0 n = False"

text \<open>\<open>n + r\<close> and \<open>n - r\<close> for a finite \<open>r\<close>.\<close>

fun add_num :: "jsnum \<Rightarrow> real \<Rightarrow> jsnum" where
  "add_num (Fin a) r = Fin (a + r)"
| "add_num n r = n"

text \<open>
  \<open>v + r\<close> as \<open>Math.round\<close> then reads it: when \<open>v\<close>, made primitive, is a string,
  \<open>+\<close> concatenates and the result is a string, which is converted back to a number;
  otherwise the numbers are added.
\<close>

fun plus_as_number :: "js_runtime \<Rightarrow> jsval \<Rightarrow> real \<Rightarrow> jsnum option" where
  "plus_as_number R (JStr s) r = Some (StringToNumber R (s @ NumberToString R r))"
| "plus_as_number R (JArr xs) r =
     map_option (\<lambda>s. StringToNumber R (s @ NumberToString R r)) (ToString R (JArr xs))"
| "plus_as_number R (JObj kvs) r =
     map_option (\<lambda>s. StringToNumber R (s @ NumberToString R r)) (ToString R (JObj kvs))"
| "plus_as_number R v r = map_option (\<lambda>n. add_num n r) (ToNumber R v)"

text \<open>\<open>v - r\<close>: both sides are numbers.\<close>

definition minus_as_number :: "js_runtime \<Rightarrow> jsval \<Rightarrow> real \<Rightarrow> jsnum option" where
  "minus_as_number R v r = map_option (\<lambda>n. add_num n (- r)) (ToNumber R v)"

definition not_primitive :: error where
  "not_primitive = TypeError ''Cannot convert object to primitive value''"

section \<open>Transport\<close>

text \<open>
  The two accessors of the speaker's HTTP API.  A request is kept as the path and, for
  a write, the object that \<open>JSON.stringify\<close> serialises into the URL.  The speaker and
  the network are a state machine \<open>T\<close> that answers a request with a parsed body or
  fails with the transport's error; every request that is issued is appended to \<open>reqs\<close>.
\<close>

datatype request = GetData string | SetData string jsval

type_synonym 'd transport = "'d \<Rightarrow> request \<Rightarrow> (error + jsval) \<times> 'd"

record 'd world =
  dev :: 'd
  reqs :: "request list"

definition request :: "'d transport \<Rightarrow> request \<Rightarrow> 'd world \<Rightarrow> (error + jsval) \<times> 'd world" where
  "request T rq w =
     (case T (dev w) rq of (r, d') \<Rightarrow> (r, \<lparr>dev = d', reqs = reqs w @ [rq]\<rparr>))"

definition getData :: "'d transport \<Rightarrow> string \<Rightarrow> 'd world \<Rightarrow> (error + jsval) \<times> 'd world" where
  "getData T path w = request T (GetData path) w"

definition setData :: "'d transport \<Rightarrow> string \<Rightarrow> jsval \<Rightarrow> 'd world \<Rightarrow> (error + unit) \<times> 'd world" where
  "setData T path v w =
     (case request T (SetData path v) w of
        (Inl e, w') \<Rightarrow> (Inl e, w')
      | (Inr resp, w') \<Rightarrow> (Inr (), w'))"

section \<open>Speaker client: volume\<close>

definition getVolume :: "'d transport \<Rightarrow> 'd world \<Rightarrow> (error + jsval) \<times> 'd world" where
  "getVolume T w =
     (case getData T ''player:volume'' w of
        (Inl e, w') \<Rightarrow> (Inl (Error (''Failed to get volume: '' @ show_error e)), w')
      | (Inr response, w') \<Rightarrow>
          if truthy response \<and> truthy (js_index0 response)
             \<and> js_get (js_index0 response) ''i32_'' \<noteq> JUndefined
          then (Inr (js_get (js_index0 response) ''i32_''), w')
          else (Inr (JNum 0), w'))"

definition i32_value :: "int \<Rightarrow> jsval" where
  "i32_value vol = JObj [(''type'', JStr ''i32_''), (''i32_'', JNum (of_int vol))]"

definition setVolume :: "'d transport \<Rightarrow> real \<Rightarrow> 'd world \<Rightarrow> (error + unit) \<times> 'd world" where
  "setVolume T volume w =
     (let vol = min 100 (max 0 (Math_round volume))
      in setData T ''player:volume'' (i32_value vol) w)"

text \<open>
  \<open>setVolume\<close> when the argument is not a finite number: \<open>Math.round\<close>, \<open>Math.max\<close>
  and \<open>Math.min\<close> pass \<open>NaN\<close> on, which \<open>JSON.stringify\<close> writes as \<open>null\<close>; an
  infinity is clamped.
\<close>

definition setVolume_num :: "'d transport \<Rightarrow> jsnum \<Rightarrow> 'd world \<Rightarrow> (error + unit) \<times> 'd world" where
  "setVolume_num T n w =
     (case n of
        Fin r \<Rightarrow> setVolume T r w
      | NaN \<Rightarrow> setData T ''player:volume'' (JObj [(''type'', JStr ''i32_''), (''i32_'', JNull)]) w
      | PosInf \<Rightarrow> setData T ''player:volume'' (i32_value 100) w
      | NegInf \<Rightarrow> setData T ''player:volume'' (i32_value 0) w)"

text \<open>
  \<open>setVolume\<close> when the argument is any value: \<open>Math.round\<close> converts it to a number
  first, which throws for an object that has no primitive value.
\<close>

definition setVolume_any ::
  "js_runtime \<Rightarrow> 'd transport \<Rightarrow> jsval \<Rightarrow> 'd world \<Rightarrow> (error + unit) \<times> 'd world" where
  "setVolume_any R T v w =
     (case ToNumber R v of
        None \<Rightarrow> (Inl not_primitive, w)
      | Some n \<Rightarrow> setVolume_num T n w)"

section \<open>Speaker client: state, source and power\<close>

text \<open>
  The fields of class \<open>KEFSpeaker\<close> that the operations below read or write, with the
  initial values of the field declarations.
\<close>

record KEFSpeaker =
  lastActiveSource :: string
  previousVolume :: jsval
  isMuted :: bool
  repeatMode :: string
  shuffleMode :: string

definition new_KEFSpeaker :: KEFSpeaker where
  "new_KEFSpeaker =
     \<lparr>lastActiveSource = ''wifi'', previousVolume = JNum 50, isMuted = False,
      repeatMode = ''none'', shuffleMode = ''none''\<rparr>"

definition physicalSource_path :: string where
  "physicalSource_path = ''settings:/kef/play/physicalSource''"

definition kefPhysicalSource_value :: "string \<Rightarrow> jsval" where
  "kefPhysicalSource_value s =
     JObj [(''type'', JStr ''kefPhysicalSource''), (''kefPhysicalSource'', JStr s)]"

text \<open>
  \<open>getPowerState\<close> never throws: a transport failure, and the \<open>TypeError\<close> of
  \<open>toLowerCase\<close> on a truthy value that is not a string, both end in the \<open>catch\<close>.
\<close>

definition getPowerState :: "'d transport \<Rightarrow> 'd world \<Rightarrow> bool \<times> 'd world" where
  "getPowerState T w =
     (case getData T physicalSource_path w of
        (Inl e, w') \<Rightarrow> (False, w')
      | (Inr response, w') \<Rightarrow>
          if truthy response \<and> truthy (js_index0 response)
             \<and> truthy (js_get (js_index0 response) ''kefPhysicalSource'')
          then (case js_get (js_index0 response) ''kefPhysicalSource'' of
                  JStr s \<Rightarrow> (toLowerCase s \<noteq> ''standby'', w')
                | other \<Rightarrow> (False, w'))
          else (True, w'))"

definition getSource ::
  "'d transport \<Rightarrow> KEFSpeaker \<Rightarrow> 'd world \<Rightarrow> (error + string) \<times> KEFSpeaker \<times> 'd world" where
  "getSource T c w =
     (case getData T physicalSource_path w of
        (Inl e, w') \<Rightarrow> (Inl (Error (''Failed to get source: '' @ show_error e)), c, w')
      | (Inr response, w') \<Rightarrow>
          if truthy response \<and> truthy (js_index0 response)
             \<and> truthy (js_get (js_index0 response) ''kefPhysicalSource'')
          then (case js_get (js_index0 response) ''kefPhysicalSource'' of
                  JStr s \<Rightarrow>
                    (let source = toLowerCase s
                     in (Inr source,
                         if source \<noteq> ''standby'' then c\<lparr>lastActiveSource := source\<rparr> else c,
                         w'))
                | other \<Rightarrow>
                    (Inl (Error (''Failed to get source: ''
                            @ show_error (TypeError ''toLowerCase is not a function''))), c, w'))
          else (Inr ''wifi'', c, w'))"

definition setSource :: "'d transport \<Rightarrow> string \<Rightarrow> 'd world \<Rightarrow> (error + unit) \<times> 'd world" where
  "setSource T source w = setData T physicalSource_path (kefPhysicalSource_value source) w"

definition setPowerState ::
  "'d transport \<Rightarrow> bool \<Rightarrow> KEFSpeaker \<Rightarrow> 'd world \<Rightarrow> (error + unit) \<times> 'd world" where
  "setPowerState T on c w =
     (if on then setSource T (lastActiveSource c) w
      else setData T physicalSource_path (kefPhysicalSource_value ''standby'') w)"

definition testConnection :: "'d transport \<Rightarrow> KEFSpeaker \<Rightarrow> 'd world \<Rightarrow> bool \<times> KEFSpeaker \<times> 'd world" where
  "testConnection T c w =
     (case getSource T c w of
        (Inl e, c', w') \<Rightarrow> (False, c', w')
      | (Inr s, c', w') \<Rightarrow> (True, c', w'))"

section \<open>Speaker client: relative volume and mute\<close>

text \<open>
  What \<open>getVolume\<close> returns is used as it is: \<open>current + step\<close>, \<open>current - step\<close>
  and \<open>currentVolume > 0\<close> convert it, \<open>volume === 0\<close> compares without conversion,
  and \<open>previousVolume\<close> keeps the value itself.
\<close>

definition increaseVolume ::
  "js_runtime \<Rightarrow> 'd transport \<Rightarrow> real \<Rightarrow> 'd world \<Rightarrow> (error + unit) \<times> 'd world" where
  "increaseVolume R T step w =
     (case getVolume T w of
        (Inl e, w1) \<Rightarrow> (Inl e, w1)
      | (Inr current, w1) \<Rightarrow>
          (case plus_as_number R current step of
             None \<Rightarrow> (Inl not_primitive, w1)
           | Some n \<Rightarrow> setVolume_num T n w1))"

definition decreaseVolume ::
  "js_runtime \<Rightarrow> 'd transport \<Rightarrow> real \<Rightarrow> 'd world \<Rightarrow> (error + unit) \<times> 'd world" where
  "decreaseVolume R T step w =
     (case getVolume T w of
        (Inl e, w1) \<Rightarrow> (Inl e, w1)
      | (Inr current, w1) \<Rightarrow>
          (case minus_as_number R current step of
             None \<Rightarrow> (Inl not_primitive, w1)
           | Some n \<Rightarrow> setVolume_num T n w1))"

definition getMuted :: "'d transport \<Rightarrow> KEFSpeaker \<Rightarrow> 'd world \<Rightarrow> (error + bool) \<times> 'd world" where
  "getMuted T c w =
     (case getVolume T w of
        (Inl e, w') \<Rightarrow> (Inl e, w')
      | (Inr volume, w') \<Rightarrow> (Inr (volume = JNum 0 \<and> isMuted c), w'))"

definition setMuted ::
  "js_runtime \<Rightarrow> 'd transport \<Rightarrow> bool \<Rightarrow> KEFSpeaker \<Rightarrow> 'd world
     \<Rightarrow> (error + unit) \<times> KEFSpeaker \<times> 'd world" where
  "setMuted R T muted c w =
     (if muted then
        (case getVolume T w of
           (Inl e, w1) \<Rightarrow> (Inl e, c, w1)
         | (Inr currentVolume, w1) \<Rightarrow>
             (case ToNumber R currentVolume of
                None \<Rightarrow> (Inl not_primitive, c, w1)
              | Some n \<Rightarrow>
                  (let c1 = (if js_gt0 n then c\<lparr>previousVolume := currentVolume\<rparr> else c)
                   in case setVolume T 0 w1 of
                        (Inl e, w2) \<Rightarrow> (Inl e, c1, w2)
                      | (Inr u, w2) \<Rightarrow> (Inr (), c1\<lparr>isMuted := True\<rparr>, w2))))
      else
        (case setVolume_any R T (previousVolume c) w of
           (Inl e, w1) \<Rightarrow> (Inl e, c, w1)
         | (Inr u, w1) \<Rightarrow> (Inr (), c\<lparr>isMuted := False\<rparr>, w1)))"

definition toggleMute ::
  "js_runtime \<Rightarrow> 'd transport \<Rightarrow> KEFSpeaker \<Rightarrow> 'd world
     \<Rightarrow> (error + unit) \<times> KEFSpeaker \<times> 'd world" where
  "toggleMute R T c w =
     (case getMuted T c w of
        (Inl e, w1) \<Rightarrow> (Inl e, c, w1)
      | (Inr muted, w1) \<Rightarrow> setMuted R T (\<not> muted) c w1)"

section \<open>Speaker client: playback information\<close>

definition playerData_path :: string where
  "playerData_path = ''player:player/data''"

text \<open>\<open>a && b\<close> evaluates to \<open>a\<close> when \<open>a\<close> is falsy, to \<open>b\<close> otherwise.\<close>

definition js_and :: "jsval \<Rightarrow> jsval \<Rightarrow> jsval" where
  "js_and a b = (if truthy a then b else a)"

definition isPlaying :: "'d transport \<Rightarrow> 'd world \<Rightarrow> jsval \<times> 'd world" where
  "isPlaying T w =
     (case getData T playerData_path w of
        (Inl e, w') \<Rightarrow> (JBool False, w')
      | (Inr response, w') \<Rightarrow>
          (js_and response
             (js_and (js_index0 response)
                (JBool (js_get (js_index0 response) ''state'' = JStr ''playing''))), w'))"

text \<open>
  \<open>KEFPlaybackInfo\<close>: an optional field that was never assigned reads \<open>undefined\<close>.
\<close>

record KEFPlaybackInfo =
  pi_isPlaying :: jsval
  title :: jsval
  artist :: jsval
  album :: jsval
  duration :: jsval
  position :: jsval
  pi_source :: jsval
  albumArtUrl :: jsval

definition empty_info :: KEFPlaybackInfo where
  "empty_info =
     \<lparr>pi_isPlaying = JBool False, title = JUndefined, artist = JUndefined, album = JUndefined,
      duration = JUndefined, position = JUndefined, pi_source = JUndefined,
      albumArtUrl = JUndefined\<rparr>"

text \<open>The block \<open>if (track.trackRoles) { ... }\<close> of \<open>getPlaybackInfo\<close>.\<close>

definition extract_trackRoles :: "jsval \<Rightarrow> KEFPlaybackInfo \<Rightarrow> KEFPlaybackInfo" where
  "extract_trackRoles track info =
     (if truthy (js_get track ''trackRoles'') then
        (let trackRoles = js_get track ''trackRoles'';
             mediaData = js_get trackRoles ''mediaData'';
             i1 = (if truthy (js_get trackRoles ''title'')
                   then info\<lparr>title := js_get trackRoles ''title''\<rparr> else info);
             i2 = (if truthy mediaData \<and> truthy (js_get mediaData ''metaData'') then
                     (let metaData = js_get mediaData ''metaData'';
                          ia = (if truthy (js_get metaData ''artist'')
                                then i1\<lparr>artist := js_get metaData ''artist''\<rparr> else i1)
                      in if truthy (js_get metaData ''album'')
                         then ia\<lparr>album := js_get metaData ''album''\<rparr> else ia)
                   else i1);
             i3 = (if truthy mediaData \<and> truthy (js_get mediaData ''resources'')
                      \<and> truthy (js_index0 (js_get mediaData ''resources''))
                      \<and> truthy (js_get (js_index0 (js_get mediaData ''resources'')) ''duration'')
                   then i2\<lparr>duration :=
                            js_get (js_index0 (js_get mediaData ''resources'')) ''duration''\<rparr>
                   else i2)
         in if truthy (js_get trackRoles ''icon'')
            then i3\<lparr>albumArtUrl := js_get trackRoles ''icon''\<rparr> else i3)
      else info)"

text \<open>Path 2: the fields directly on the track.\<close>

definition extract_direct :: "jsval \<Rightarrow> KEFPlaybackInfo \<Rightarrow> KEFPlaybackInfo" where
  "extract_direct track info =
     (let i1 = (if \<not> truthy (title info) \<and> truthy (js_get track ''title'')
                then info\<lparr>title := js_get track ''title''\<rparr> else info);
          i2 = (if \<not> truthy (artist i1) \<and> truthy (js_get track ''artist'')
                then i1\<lparr>artist := js_get track ''artist''\<rparr> else i1)
      in if \<not> truthy (album i2) \<and> truthy (js_get track ''album'')
         then i2\<lparr>album := js_get track ''album''\<rparr> else i2)"

text \<open>Paths 3 and 4: the fields under \<open>track.metadata\<close>, then under \<open>track.metaData\<close>.\<close>

definition extract_under :: "string \<Rightarrow> jsval \<Rightarrow> KEFPlaybackInfo \<Rightarrow> KEFPlaybackInfo" where
  "extract_under key track info =
     (if truthy (js_get track key) then extract_direct (js_get track key) info else info)"

definition extract_metadata :: "jsval \<Rightarrow> KEFPlaybackInfo \<Rightarrow> KEFPlaybackInfo" where
  "extract_metadata track info =
     (let i1 = extract_trackRoles track info;
          i2 = extract_direct track i1;
          i3 = extract_under ''metadata'' track i2;
          i4 = extract_under ''metaData'' track i3
      in if truthy (js_get track ''position'')
         then i4\<lparr>position := js_get track ''position''\<rparr> else i4)"

definition getPlaybackInfo ::
  "'d transport \<Rightarrow> KEFSpeaker \<Rightarrow> 'd world \<Rightarrow> KEFPlaybackInfo \<times> KEFSpeaker \<times> 'd world" where
  "getPlaybackInfo T c w =
     (case isPlaying T w of (playing, w1) \<Rightarrow>
        (let info1 = empty_info\<lparr>pi_isPlaying := playing\<rparr>
         in case getSource T c w1 of
              (Inl e, c2, w2) \<Rightarrow> (info1, c2, w2)
            | (Inr s, c2, w2) \<Rightarrow>
                (let info2 = info1\<lparr>pi_source := JStr s\<rparr>
                 in case getData T playerData_path w2 of
                      (Inl e, w3) \<Rightarrow> (info2, c2, w3)
                    | (Inr trackResponse, w3) \<Rightarrow>
                        if truthy trackResponse \<and> truthy (js_index0 trackResponse) then
                          (let track = js_index0 trackResponse
                           in if js_get track ''state'' = JStr ''stopped''
                              then (info2, c2, w3)
                              else (extract_metadata track info2, c2, w3))
                        else (info2, c2, w3))))"

section \<open>Speaker client: album art and settings snapshot\<close>

text \<open>
  The first half of \<open>getAlbumArtUrl\<close>: which value becomes \<open>playerData\<close>.  \<open>None\<close> is
  an early \<open>return null\<close>.
\<close>

definition albumArt_playerData :: "jsval \<Rightarrow> jsval option" where
  "albumArt_playerData trackResponse =
     (case trackResponse of
        JArr xs \<Rightarrow> (case xs of [] \<Rightarrow> None | x # rest \<Rightarrow> Some x)
      | other \<Rightarrow>
          if truthy (js_get trackResponse ''error'') then None
          else if truthy (js_get trackResponse ''data'') then
            (case js_get trackResponse ''data'' of
               JArr ys \<Rightarrow> (case ys of [] \<Rightarrow> Some JNull | y # rest \<Rightarrow> Some y)
             | d \<Rightarrow> Some d)
          else Some trackResponse)"

definition albumArt_icon :: "jsval \<Rightarrow> jsval" where
  "albumArt_icon playerData =
     (if truthy (js_get playerData ''trackRoles'')
         \<and> truthy (js_get (js_get playerData ''trackRoles'') ''icon'')
      then js_get (js_get playerData ''trackRoles'') ''icon''
      else if truthy (js_get playerData ''icon'') then js_get playerData ''icon''
      else if truthy (js_get playerData ''player'')
              \<and> truthy (js_get (js_get playerData ''player'') ''trackRoles'')
              \<and> truthy (js_get (js_get (js_get playerData ''player'') ''trackRoles'') ''icon'')
      then js_get (js_get (js_get playerData ''player'') ''trackRoles'') ''icon''
      else JNull)"

definition getAlbumArtUrl :: "'d transport \<Rightarrow> 'd world \<Rightarrow> jsval \<times> 'd world" where
  "getAlbumArtUrl T w =
     (case getData T playerData_path w of
        (Inl e, w') \<Rightarrow> (JNull, w')
      | (Inr trackResponse, w') \<Rightarrow>
          if \<not> truthy trackResponse then (JNull, w')
          else (case albumArt_playerData trackResponse of
                  None \<Rightarrow> (JNull, w')
                | Some playerData \<Rightarrow>
                    if \<not> truthy playerData then (JNull, w')
                    else if js_get playerData ''state'' = JStr ''stopped'' then (JNull, w')
                    else (albumArt_icon playerData, w')))"

definition subwooferGain_path :: string where
  "subwooferGain_path = ''settings:/kef/dsp/subwooferGain''"

definition getSubwooferGain :: "'d transport \<Rightarrow> 'd world \<Rightarrow> real \<times> 'd world" where
  "getSubwooferGain T w =
     (case getData T subwooferGain_path w of
        (Inl e, w') \<Rightarrow> (0, w')
      | (Inr response, w') \<Rightarrow>
          if truthy response \<and> truthy (js_index0 response) then
            (case js_get (js_index0 response) ''subwooferGain'' of
               JNum g \<Rightarrow> (g, w')
             | other \<Rightarrow> (0, w'))
          else (0, w'))"

text \<open>\<open>KEFSettings\<close>: every field is optional, \<open>None\<close> is a field that was not set.\<close>

record KEFSettings =
  st_volume :: "jsval option"
  st_muted :: "bool option"
  st_source :: "string option"
  st_standby :: "bool option"
  st_subwooferGain :: "real option"

definition empty_settings :: KEFSettings where
  "empty_settings =
     \<lparr>st_volume = None, st_muted = None, st_source = None, st_standby = None,
      st_subwooferGain = None\<rparr>"

text \<open>
  The inner \<open>try\<close> of \<open>getAllSettings\<close> around the volume and mute reads: a throw of
  either leaves the fields assigned before it.
\<close>

definition read_volume_mute ::
  "'d transport \<Rightarrow> KEFSpeaker \<Rightarrow> KEFSettings \<Rightarrow> 'd world \<Rightarrow> KEFSettings \<times> 'd world" where
  "read_volume_mute T c settings w =
     (case getVolume T w of
        (Inl e, w1) \<Rightarrow> (settings, w1)
      | (Inr v, w1) \<Rightarrow>
          (case getMuted T c w1 of
             (Inl e, w2) \<Rightarrow> (settings\<lparr>st_volume := Some v\<rparr>, w2)
           | (Inr m, w2) \<Rightarrow> (settings\<lparr>st_volume := Some v, st_muted := Some m\<rparr>, w2)))"

definition getAllSettings ::
  "'d transport \<Rightarrow> KEFSpeaker \<Rightarrow> 'd world \<Rightarrow> KEFSettings \<times> KEFSpeaker \<times> 'd world" where
  "getAllSettings T c w =
     (case getPowerState T w of (powerState, w1) \<Rightarrow>
        (let s1 = empty_settings\<lparr>st_standby := Some (\<not> powerState)\<rparr>
         in case getSource T c w1 of
              (Inl e, c2, w2) \<Rightarrow> (s1\<lparr>st_standby := Some True\<rparr>, c2, w2)
            | (Inr src, c2, w2) \<Rightarrow>
                (let s2 = s1\<lparr>st_source := Some src\<rparr>
                 in if powerState \<and> src \<noteq> ''standby'' then
                      (case read_volume_mute T c2 s2 w2 of (s3, w3) \<Rightarrow>
                         (case getSubwooferGain T w3 of (g, w4) \<Rightarrow>
                            (s3\<lparr>st_subwooferGain := Some g\<rparr>, c2, w4)))
                    else (s2, c2, w2))))"

section \<open>Model registry\<close>

record KEFModelConfig =
  name :: string
  sources :: "string list"
  capabilities :: "string list"
  energyUsage :: "(nat \<times> nat) option"

definition model_capabilities :: "string list" where
  "model_capabilities =
     [''onoff'', ''volume_set'', ''source_input'', ''speaker_playing'', ''speaker_next'',
      ''speaker_prev'', ''speaker_track'', ''speaker_artist'', ''speaker_album'',
      ''speaker_shuffle'', ''speaker_repeat'']"

definition kef_ls50w2 :: KEFModelConfig where
  "kef_ls50w2 =
     \<lparr>name = ''KEF LS50 Wireless II'',
      sources = [''wifi'', ''bluetooth'', ''tv'', ''optical'', ''coaxial'', ''analog''],
      capabilities = model_capabilities, energyUsage = Some (190, 5)\<rparr>"

definition KEF_MODELS :: "(string \<times> KEFModelConfig) list" where
  "KEF_MODELS =
     [(''kef-lsx2'',
         \<lparr>name = ''KEF LSX II'',
          sources = [''wifi'', ''bluetooth'', ''tv'', ''optical'', ''analog'', ''usb''],
          capabilities = model_capabilities, energyUsage = Some (100, 5)\<rparr>),
      (''kef-lsx2lt'',
         \<lparr>name = ''KEF LSX II LT'',
          sources = [''wifi'', ''bluetooth'', ''tv'', ''optical'', ''usb''],
          capabilities = model_capabilities, energyUsage = Some (100, 5)\<rparr>),
      (''kef-ls50w2'', kef_ls50w2),
      (''kef-ls60'',
         \<lparr>name = ''KEF LS60 Wireless'',
          sources = [''wifi'', ''bluetooth'', ''tv'', ''optical'', ''coaxial'', ''analog''],
          capabilities = model_capabilities, energyUsage = Some (450, 2)\<rparr>),
      (''kef-lsx'',
         \<lparr>name = ''KEF LSX'',
          sources = [''wifi'', ''bluetooth'', ''tv'', ''optical'', ''analog''],
          capabilities = model_capabilities, energyUsage = Some (100, 5)\<rparr>),
      (''kef-xio'',
         \<lparr>name = ''KEF XIO Soundbar'',
          sources = [''wifi'', ''bluetooth'', ''tv'', ''optical''],
          capabilities = model_capabilities, energyUsage = Some (200, 5)\<rparr>)]"

definition getModelConfig :: "string \<Rightarrow> KEFModelConfig" where
  "getModelConfig modelId =
     (case map_of KEF_MODELS modelId of Some config \<Rightarrow> config | None \<Rightarrow> kef_ls50w2)"

definition isSourceSupported :: "string \<Rightarrow> string \<Rightarrow> bool" where
  "isSourceSupported modelId source =
     (let config = getModelConfig modelId in toLowerCase source \<in> set (sources config))"

section \<open>Device lifecycle: the source command\<close>

text \<open>
  Calls into the platform: a capability value that is set, the availability of the
  device, and the two calls that put an image on display.
\<close>

datatype platform_call =
    SetCapabilityValue string jsval
  | SetAvailable
  | SetUnavailable
  | ImageUtil_updateAlbumArt jsval
  | SetAlbumArtImage

text \<open>
  \<open>onCapabilitySource\<close> of the device whose model id is \<open>modelId\<close>.  The \<open>throw\<close> of
  the unsupported source and a failure of \<open>setSource\<close> both reach the \<open>catch\<close>, which
  throws \<open>Error("Failed to set source")\<close>; a failure of \<open>setCapabilityValue\<close> is
  swallowed by its own \<open>.catch\<close>.
\<close>

definition onCapabilitySource ::
  "'d transport \<Rightarrow> string \<Rightarrow> string \<Rightarrow> 'd world
     \<Rightarrow> (error + unit) \<times> platform_call list \<times> 'd world" where
  "onCapabilitySource T modelId v w =
     (if \<not> isSourceSupported modelId v then (Inl (Error ''Failed to set source''), [], w)
      else (case setSource T v w of
              (Inl e, w') \<Rightarrow> (Inl (Error ''Failed to set source''), [], w')
            | (Inr u, w') \<Rightarrow> (Inr (), [SetCapabilityValue ''source_input'' (JStr v)], w')))"

section \<open>Device lifecycle: the device\<close>

text \<open>
  The fields of class \<open>KEFBaseDevice\<close> used by polling and by the album-art step.
  \<open>albumArtImage\<close> tells whether the image object exists, \<open>pollInterval\<close> holds the
  period of the timer that is running (\<open>None\<close> when there is none).
\<close>

record KEFBaseDevice =
  isAvailable :: bool
  albumArtImage :: bool
  currentAlbumArtUrl :: jsval
  pollInterval :: "real option"

section \<open>Device lifecycle: album art\<close>

text \<open>
  \<open>a !== b\<close> negated: primitives are compared by value; an array or an object is only
  equal to itself, and the two operands here come from different responses.
\<close>

definition js_strict_eq :: "jsval \<Rightarrow> jsval \<Rightarrow> bool" where
  "js_strict_eq a b = (case a of JArr xs \<Rightarrow> False | JObj kvs \<Rightarrow> False | other \<Rightarrow> a = b)"

text \<open>
  The inner \<open>try\<close> that puts a picture (or, with \<open>null\<close>, none) on display:
  \<open>image_throws\<close> says whether \<open>ImageUtil.updateAlbumArt\<close> throws, in which case
  \<open>setAlbumArtImage\<close> is not reached.
\<close>

definition show_image :: "bool \<Rightarrow> jsval \<Rightarrow> platform_call list" where
  "show_image image_throws url =
     (if image_throws then [ImageUtil_updateAlbumArt url]
      else [ImageUtil_updateAlbumArt url, SetAlbumArtImage])"

definition updateAlbumArt ::
  "'d transport \<Rightarrow> bool \<Rightarrow> KEFBaseDevice \<Rightarrow> KEFSpeaker \<Rightarrow> 'd world
     \<Rightarrow> platform_call list \<times> KEFBaseDevice \<times> KEFSpeaker \<times> 'd world" where
  "updateAlbumArt T image_throws dv c w =
     (if \<not> albumArtImage dv then ([], dv, c, w)
      else if \<not> isAvailable dv then ([], dv, c, w)
      else (case getSource T c w of
              (Inl e, c1, w1) \<Rightarrow> ([], dv, c1, w1)
            | (Inr currentSource, c1, w1) \<Rightarrow>
                if currentSource = ''wifi'' \<or> currentSource = ''bluetooth'' then
                  (case getAlbumArtUrl T w1 of (url, w2) \<Rightarrow>
                     if \<not> js_strict_eq url (currentAlbumArtUrl dv)
                     then (show_image image_throws url, dv\<lparr>currentAlbumArtUrl := url\<rparr>, c1, w2)
                     else ([], dv, c1, w2))
                else if currentAlbumArtUrl dv \<noteq> JNull
                then (show_image image_throws JNull, dv\<lparr>currentAlbumArtUrl := JNull\<rparr>, c1, w1)
                else ([], dv, c1, w1)))"

text \<open>
  The album-art step of successive polls, one flag per poll; the platform calls of all
  of them are collected in order.
\<close>

fun updateAlbumArt_polls ::
  "'d transport \<Rightarrow> bool list \<Rightarrow> KEFBaseDevice \<Rightarrow> KEFSpeaker \<Rightarrow> 'd world
     \<Rightarrow> platform_call list \<times> KEFBaseDevice \<times> KEFSpeaker \<times> 'd world" where
  "updateAlbumArt_polls T [] dv c w = ([], dv, c, w)"
| "updateAlbumArt_polls T (f # fs) dv c w =
     (case updateAlbumArt T f dv c w of (calls, dv1, c1, w1) \<Rightarrow>
        (case updateAlbumArt_polls T fs dv1 c1 w1 of (calls', dv2, c2, w2) \<Rightarrow>
           (calls @ calls', dv2, c2, w2)))"

text \<open>
  The source stays non-streaming over these polls: the source read of each album-art
  step succeeds with a source other than \<open>"wifi"\<close> and \<open>"bluetooth"\<close>.
\<close>

fun stays_non_streaming ::
  "'d transport \<Rightarrow> bool list \<Rightarrow> KEFBaseDevice \<Rightarrow> KEFSpeaker \<Rightarrow> 'd world \<Rightarrow> bool" where
  "stays_non_streaming T [] dv c w = True"
| "stays_non_streaming T (f # fs) dv c w =
     (case getSource T c w of
        (Inl e, c1, w1) \<Rightarrow> False
      | (Inr src, c1, w1) \<Rightarrow>
          src \<noteq> ''wifi'' \<and> src \<noteq> ''bluetooth''
          \<and> (case updateAlbumArt T f dv c w of (calls, dv1, c2, w2) \<Rightarrow>
                stays_non_streaming T fs dv1 c2 w2))"

section \<open>Device lifecycle: polling and availability\<close>

text \<open>The variables that the closure \<open>poll\<close> of \<open>startPolling\<close> captures.\<close>

record polling =
  normalInterval :: real
  currentInterval :: real
  failureCount :: nat

definition retryInterval :: real where
  "retryInterval = 30000"

definition maxFailures :: nat where
  "maxFailures = 3"

text \<open>
  \<open>startPolling\<close>, given the setting \<open>polling_interval\<close> (\<open>None\<close> when it is not
  set; \<open>||\<close> also replaces a zero by 5).
\<close>

definition startPolling :: "real option \<Rightarrow> KEFBaseDevice \<Rightarrow> KEFBaseDevice \<times> polling" where
  "startPolling polling_interval dv =
     (let normal = (case polling_interval of None \<Rightarrow> 5 | Some p \<Rightarrow> if p = 0 then 5 else p) * 1000;
          current = (if isAvailable dv then normal else retryInterval)
      in (dv\<lparr>pollInterval := Some current\<rparr>,
          \<lparr>normalInterval = normal, currentInterval = current, failureCount = 0\<rparr>))"

text \<open>
  What the platform does during one run of \<open>poll\<close>: whether \<open>setAvailable\<close> throws,
  whether \<open>updateCapabilities\<close> throws (it only calls the platform, and
  \<open>hasCapability\<close> is called outside any \<open>catch\<close>), and whether
  \<open>ImageUtil.updateAlbumArt\<close> throws.  The values handed to the platform are not
  recorded.
\<close>

record poll_env =
  setAvailable_throws :: bool
  updateCapabilities_throws :: bool
  image_throws :: bool

text \<open>The \<open>catch\<close> block of \<open>poll\<close>.\<close>

definition poll_catch :: "KEFBaseDevice \<times> polling \<Rightarrow> KEFBaseDevice \<times> polling" where
  "poll_catch st =
     (case st of (dv, pl) \<Rightarrow>
        (let pl1 = pl\<lparr>failureCount := failureCount pl + 1\<rparr>
         in if failureCount pl1 \<ge> maxFailures \<and> isAvailable dv then
              (let dv1 = dv\<lparr>isAvailable := False\<rparr>
               in if currentInterval pl1 \<noteq> retryInterval
                  then (dv1\<lparr>pollInterval := Some retryInterval\<rparr>,
                        pl1\<lparr>currentInterval := retryInterval\<rparr>)
                  else (dv1, pl1))
            else (dv, pl1)))"

text \<open>
  The block \<open>if (!this.isAvailable) { ... }\<close> of \<open>poll\<close>: \<open>Inl\<close> is the state in
  which \<open>setAvailable\<close> threw, \<open>Inr\<close> the state with which the \<open>try\<close> goes on.
\<close>

definition back_online ::
  "poll_env \<Rightarrow> KEFBaseDevice \<times> polling
     \<Rightarrow> (KEFBaseDevice \<times> polling) + (KEFBaseDevice \<times> polling)" where
  "back_online env st =
     (case st of (dv, pl) \<Rightarrow>
        if \<not> isAvailable dv then
          (let dv1 = dv\<lparr>isAvailable := True\<rparr>
           in if setAvailable_throws env then Inl (dv1, pl)
              else
                (let pl1 = pl\<lparr>failureCount := 0\<rparr>
                 in if currentInterval pl1 \<noteq> normalInterval pl1
                    then Inr (dv1\<lparr>pollInterval := Some (normalInterval pl1)\<rparr>,
                              pl1\<lparr>currentInterval := normalInterval pl1\<rparr>)
                    else Inr (dv1, pl1)))
        else Inr (dv, pl))"

text \<open>
  \<open>updateMusicMetadata\<close>: the playback information is read and handed to the
  platform; all of it is inside one \<open>try\<close> whose \<open>catch\<close> only logs.
\<close>

definition updateMusicMetadata ::
  "'d transport \<Rightarrow> KEFSpeaker \<Rightarrow> 'd world \<Rightarrow> KEFSpeaker \<times> 'd world" where
  "updateMusicMetadata T c w = (case getPlaybackInfo T c w of (info, c1, w1) \<Rightarrow> (c1, w1))"

text \<open>
  One run of \<open>poll\<close>, on the device, the closure's variables, the client and the
  speaker.  The body of the \<open>try\<close> is: \<open>getAllSettings\<close>, the block above,
  \<open>updateCapabilities\<close>, \<open>updateMusicMetadata\<close>, \<open>updateAlbumArt\<close>, and the reset
  of the failure count.
\<close>

definition poll ::
  "'d transport \<Rightarrow> poll_env \<Rightarrow> KEFBaseDevice \<times> polling \<times> KEFSpeaker \<times> 'd world
     \<Rightarrow> KEFBaseDevice \<times> polling \<times> KEFSpeaker \<times> 'd world" where
  "poll T env st =
     (case st of (dv, pl, c, w) \<Rightarrow>
        (case getAllSettings T c w of (deviceSettings, c1, w1) \<Rightarrow>
           (case back_online env (dv, pl) of
              Inl thrown \<Rightarrow>
                (case poll_catch thrown of (dv', pl') \<Rightarrow> (dv', pl', c1, w1))
            | Inr (dv2, pl2) \<Rightarrow>
                if updateCapabilities_throws env
                then (case poll_catch (dv2, pl2) of (dv', pl') \<Rightarrow> (dv', pl', c1, w1))
                else
                  (case updateMusicMetadata T c1 w1 of (c2, w2) \<Rightarrow>
                     (case updateAlbumArt T (image_throws env) dv2 c2 w2 of
                        (calls, dv3, c3, w3) \<Rightarrow>
                          (dv3, pl2\<lparr>failureCount := 0\<rparr>, c3, w3))))))"

fun polls ::
  "'d transport \<Rightarrow> poll_env list \<Rightarrow> KEFBaseDevice \<times> polling \<times> KEFSpeaker \<times> 'd world
     \<Rightarrow> KEFBaseDevice \<times> polling \<times> KEFSpeaker \<times> 'd world" where
  "polls T [] st = st"
| "polls T (env # envs) st = polls T envs (poll T env st)"

text \<open>
  A device that has been connected, one that has not, and a run of \<open>poll\<close> in which
  the platform throws nothing.
\<close>

definition connected_device :: KEFBaseDevice where
  "connected_device =
     \<lparr>isAvailable = True, albumArtImage = True, currentAlbumArtUrl = JNull, pollInterval = None\<rparr>"

definition disconnected_device :: KEFBaseDevice where
  "disconnected_device =
     \<lparr>isAvailable = False, albumArtImage = True, currentAlbumArtUrl = JNull, pollInterval = None\<rparr>"

definition quiet :: poll_env where
  "quiet = \<lparr>setAvailable_throws = False, updateCapabilities_throws = False, image_throws = False\<rparr>"

text \<open>
  The state in which the first \<open>poll\<close> runs: the device and the closure's variables
  as \<open>startPolling\<close> leaves them, a new client, and the speaker.
\<close>

definition started ::
  "real option \<Rightarrow> KEFBaseDevice \<Rightarrow> 'd world
     \<Rightarrow> KEFBaseDevice \<times> polling \<times> KEFSpeaker \<times> 'd world" where
  "started polling_interval dv w =
     (case startPolling polling_interval dv of (dv', pl) \<Rightarrow> (dv', pl, new_KEFSpeaker, w))"

section \<open>Speakers to run the client against\<close>

text \<open>
  A speaker that stores what is written to the volume and to the physical source and
  returns it on a read, in the wire format of the API (a one-element array holding the
  typed value).  Its volume is the 32-bit integer that the field name \<open>i32_\<close> says;
  the client only ever writes integers.
\<close>

record speaker_device =
  dvolume :: int
  dsource :: string
  dplayer :: jsval
  dsubwooferGain :: real

fun faithful_device :: "speaker_device transport" where
  "faithful_device d (GetData path) =
     (Inr (if path = ''player:volume'' then JArr [i32_value (dvolume d)]
           else if path = physicalSource_path then JArr [kefPhysicalSource_value (dsource d)]
           else if path = playerData_path then dplayer d
           else if path = subwooferGain_path
           then JArr [JObj [(''type'', JStr ''subwooferGain''),
                            (''subwooferGain'', JNum (dsubwooferGain d))]]
           else JNull), d)"
| "faithful_device d (SetData path v) =
     (Inr JNull,
      if path = ''player:volume''
      then (case js_get v ''i32_'' of JNum r \<Rightarrow> d\<lparr>dvolume := \<lfloor>r\<rfloor>\<rparr> | other \<Rightarrow> d)
      else if path = physicalSource_path
      then (case js_get v ''kefPhysicalSource'' of JStr s \<Rightarrow> d\<lparr>dsource := s\<rparr> | other \<Rightarrow> d)
      else d)"

text \<open>
  A mocked transport: the responses are handed out in the order given, and a request
  beyond the last one times out.
\<close>

fun scripted :: "((error + jsval) list) transport" where
  "scripted [] rq = (Inl (Error ''Request timeout''), [])"
| "scripted (r # rs) rq = (r, rs)"

text \<open>
  Starting points: a storing speaker with a given volume, source and player data, and a
  mocked transport with given responses; no request has been issued yet.
\<close>

definition speaker_at :: "int \<Rightarrow> string \<Rightarrow> jsval \<Rightarrow> speaker_device world" where
  "speaker_at vol src player =
     \<lparr>dev = \<lparr>dvolume = vol, dsource = src, dplayer = player, dsubwooferGain = 0\<rparr>, reqs = []\<rparr>"

definition mock :: "(error + jsval) list \<Rightarrow> ((error + jsval) list) world" where
  "mock rs = \<lparr>dev = rs, reqs = []\<rparr>"

text \<open>The requests issued between two worlds.\<close>

definition new_reqs :: "'d world \<Rightarrow> 'd world \<Rightarrow> request list" where
  "new_reqs w w' = drop (length (reqs w)) (reqs w')"

section \<open>Sequences of client operations\<close>

datatype op =
    GetPowerState
  | SetPowerState bool
  | GetSource
  | SetSource string
  | GetVolume
  | SetVolume real
  | IncreaseVolume real
  | DecreaseVolume real
  | GetMuted
  | SetMuted bool
  | ToggleMute
  | IsPlaying
  | GetAlbumArtUrl
  | GetPlaybackInfo
  | GetSubwooferGain
  | GetAllSettings
  | TestConnection

fun exec_op ::
  "js_runtime \<Rightarrow> 'd transport \<Rightarrow> op \<Rightarrow> KEFSpeaker \<times> 'd world \<Rightarrow> KEFSpeaker \<times> 'd world" where
  "exec_op R T GetPowerState (c, w) = (c, snd (getPowerState T w))"
| "exec_op R T (SetPowerState on) (c, w) = (c, snd (setPowerState T on c w))"
| "exec_op R T GetSource (c, w) = snd (getSource T c w)"
| "exec_op R T (SetSource s) (c, w) = (c, snd (setSource T s w))"
| "exec_op R T GetVolume (c, w) = (c, snd (getVolume T w))"
| "exec_op R T (SetVolume v) (c, w) = (c, snd (setVolume T v w))"
| "exec_op R T (IncreaseVolume step) (c, w) = (c, snd (increaseVolume R T step w))"
| "exec_op R T (DecreaseVolume step) (c, w) = (c, snd (decreaseVolume R T step w))"
| "exec_op R T GetMuted (c, w) = (c, snd (getMuted T c w))"
| "exec_op R T (SetMuted m) (c, w) = snd (setMuted R T m c w)"
| "exec_op R T ToggleMute (c, w) = snd (toggleMute R T c w)"
| "exec_op R T IsPlaying (c, w) = (c, snd (isPlaying T w))"
| "exec_op R T GetAlbumArtUrl (c, w) = (c, snd (getAlbumArtUrl T w))"
| "exec_op R T GetPlaybackInfo (c, w) = snd (getPlaybackInfo T c w)"
| "exec_op R T GetSubwooferGain (c, w) = (c, snd (getSubwooferGain T w))"
| "exec_op R T GetAllSettings (c, w) = snd (getAllSettings T c w)"
| "exec_op R T TestConnection (c, w) = snd (testConnection T c w)"

fun run_ops ::
  "js_runtime \<Rightarrow> 'd transport \<Rightarrow> op list \<Rightarrow> KEFSpeaker \<times> 'd world \<Rightarrow> KEFSpeaker \<times> 'd world" where
  "run_ops R T [] st = st"
| "run_ops R T (x # xs) st = run_ops R T xs (exec_op R T x st)"

text \<open>
  A stand-in for the runtime's conversions, for runs in which no string is converted
  to a number and no number to a string.
\<close>

definition no_numeric_strings :: js_runtime where
  "no_numeric_strings = \<lparr>StringToNumber = (\<lambda>s. NaN), NumberToString = (\<lambda>r. ''NaN'')\<rparr>"

subsection \<open>What a source read observes\<close>

text \<open>
  The non-standby source that a response to the source read carries, if it carries
  one: the field \<open>kefPhysicalSource\<close> is a non-empty string other than \<open>"standby"\<close>,
  taken in lower case.
\<close>

definition observed_source :: "jsval \<Rightarrow> string option" where
  "observed_source response =
     (case js_get (js_index0 response) ''kefPhysicalSource'' of
        JStr s \<Rightarrow> if s \<noteq> [] \<and> toLowerCase s \<noteq> ''standby'' then Some (toLowerCase s) else None
      | other \<Rightarrow> None)"

text \<open>
  The answer that the source read of an operation gets, for the operations that read
  the source: \<open>getAllSettings\<close> reads it after the power state, \<open>getPlaybackInfo\<close>
  after the playing state.
\<close>

fun source_seen :: "'d transport \<Rightarrow> op \<Rightarrow> 'd world \<Rightarrow> (error + jsval) option" where
  "source_seen T GetSource w = Some (fst (T (dev w) (GetData physicalSource_path)))"
| "source_seen T TestConnection w = Some (fst (T (dev w) (GetData physicalSource_path)))"
| "source_seen T GetAllSettings w =
     Some (fst (T (dev (snd (getPowerState T w))) (GetData physicalSource_path)))"
| "source_seen T GetPlaybackInfo w =
     Some (fst (T (dev (snd (isPlaying T w))) (GetData physicalSource_path)))"
| "source_seen T x w = None"

definition observes :: "'d transport \<Rightarrow> op \<Rightarrow> 'd world \<Rightarrow> string option" where
  "observes T x w =
     (case source_seen T x w of
        Some (Inr response) \<Rightarrow> observed_source response
      | other \<Rightarrow> None)"

text \<open>
  During these operations no source read observes a non-standby source other than
  \<open>s\<close>: each read fails, carries no source, carries \<open>"standby"\<close>, or carries \<open>s\<close>.
\<close>

fun sees_no_other ::
  "js_runtime \<Rightarrow> 'd transport \<Rightarrow> string \<Rightarrow> op list \<Rightarrow> KEFSpeaker \<times> 'd world \<Rightarrow> bool" where
  "sees_no_other R T s [] st = True"
| "sees_no_other R T s (x # xs) st =
     ((case observes T x (snd st) of None \<Rightarrow> True | Some y \<Rightarrow> y = s)
      \<and> sees_no_other R T s xs (exec_op R T x st))"

subsection \<open>Speakers described by the states they can be in\<close>

text \<open>
  A set of speaker states that no request leads out of, and a property of a speaker
  within such a set: its volume reads carry whole numbers, as the field name
  \<open>i32_\<close> says, whenever they carry the field.
\<close>

definition closed_under :: "'d transport \<Rightarrow> 'd set \<Rightarrow> bool" where
  "closed_under T S = (\<forall>d \<in> S. \<forall>rq. snd (T d rq) \<in> S)"

definition integral_volume :: "jsval \<Rightarrow> bool" where
  "integral_volume response =
     (case js_get (js_index0 response) ''i32_'' of
        JUndefined \<Rightarrow> True
      | JNum r \<Rightarrow> r = of_int \<lfloor>r\<rfloor>
      | other \<Rightarrow> False)"

definition whole_volumes :: "'d transport \<Rightarrow> 'd set \<Rightarrow> bool" where
  "whole_volumes T S =
     (\<forall>d \<in> S. case fst (T d (GetData ''player:volume'')) of
                  Inl e \<Rightarrow> True
                | Inr response \<Rightarrow> integral_volume response)"

text \<open>
  The states of a mocked transport all of whose remaining responses carry a whole
  number where a volume is read.
\<close>

definition whole_scripts :: "(error + jsval) list set" where
  "whole_scripts =
     {rs. list_all (\<lambda>x. case x of Inl e \<Rightarrow> True | Inr response \<Rightarrow> integral_volume response) rs}"

text \<open>
  The remembered volume counts as above 0 (as \<open>previousVolume > 0\<close> would test it);
  the remembered volume is a positive whole number.
\<close>

definition remembered_positive :: "js_runtime \<Rightarrow> KEFSpeaker \<Rightarrow> bool" where
  "remembered_positive R c =
     (case ToNumber R (previousVolume c) of None \<Rightarrow> False | Some n \<Rightarrow> js_gt0 n)"

definition remembered_whole :: "KEFSpeaker \<Rightarrow> bool" where
  "remembered_whole c =
     (case previousVolume c of JNum r \<Rightarrow> 0 < r \<and> r = of_int \<lfloor>r\<rfloor> | other \<Rightarrow> False)"

section \<open>The specification's wording\<close>

text \<open>\<open>clamp(x, lo, hi)\<close> as the specification uses it.\<close>

definition clamp :: "int \<Rightarrow> int \<Rightarrow> int \<Rightarrow> int" where
  "clamp x lo hi = (if x < lo then lo else if hi < x then hi else x)"

text \<open>The first non-empty match of a list of candidates, \<open>undefined\<close> if there is none.\<close>

fun first_match :: "jsval list \<Rightarrow> jsval" where
  "first_match [] = JUndefined"
| "first_match (x # xs) = (if truthy x then x else first_match xs)"

text \<open>
  The places where a title, an artist and an album are looked for, in the order of the
  fallback.
\<close>

definition title_candidates :: "jsval \<Rightarrow> jsval list" where
  "title_candidates track =
     [js_get (js_get track ''trackRoles'') ''title'',
      js_get track ''title'',
      js_get (js_get track ''metadata'') ''title'',
      js_get (js_get track ''metaData'') ''title'']"

definition artist_candidates :: "jsval \<Rightarrow> jsval list" where
  "artist_candidates track =
     [js_get (js_get (js_get (js_get track ''trackRoles'') ''mediaData'') ''metaData'') ''artist'',
      js_get track ''artist'',
      js_get (js_get track ''metadata'') ''artist'',
      js_get (js_get track ''metaData'') ''artist'']"

definition album_candidates :: "jsval \<Rightarrow> jsval list" where
  "album_candidates track =
     [js_get (js_get (js_get (js_get track ''trackRoles'') ''mediaData'') ''metaData'') ''album'',
      js_get track ''album'',
      js_get (js_get track ''metadata'') ''album'',
      js_get (js_get track ''metaData'') ''album'']"

text \<open>
  The four shapes in which the player data has been seen to carry the title, the artist
  and the album of a track.
\<close>

definition shape_flat :: "jsval \<Rightarrow> jsval \<Rightarrow> jsval \<Rightarrow> jsval" where
  "shape_flat t a b = JObj [(''state'', JStr ''playing''), (''title'', t), (''artist'', a), (''album'', b)]"

definition shape_trackRoles :: "jsval \<Rightarrow> jsval \<Rightarrow> jsval \<Rightarrow> jsval" where
  "shape_trackRoles t a b =
     JObj [(''state'', JStr ''playing''),
           (''trackRoles'',
              JObj [(''title'', t),
                    (''mediaData'', JObj [(''metaData'', JObj [(''artist'', a), (''album'', b)])])])]"

definition shape_metadata :: "jsval \<Rightarrow> jsval \<Rightarrow> jsval \<Rightarrow> jsval" where
  "shape_metadata t a b =
     JObj [(''state'', JStr ''playing''),
           (''metadata'', JObj [(''title'', t), (''artist'', a), (''album'', b)])]"

definition shape_metaData :: "jsval \<Rightarrow> jsval \<Rightarrow> jsval \<Rightarrow> jsval" where
  "shape_metaData t a b =
     JObj [(''state'', JStr ''playing''),
           (''metaData'', JObj [(''title'', t), (''artist'', a), (''album'', b)])]"

section \<open>Requests issued by the accessors\<close>

lemma Math_round_round: "Math_round x = round x"
  by (simp add: Math_round_def round_def)

lemma clamp_min_max: "min 100 (max 0 k) = clamp k 0 100"
  by (simp add: clamp_def min_def max_def)

lemma reqs_request: "reqs (snd (request T rq w)) = reqs w @ [rq]"
  by (simp add: request_def split: prod.splits)

lemma reqs_setData: "reqs (snd (setData T path v w)) = reqs w @ [SetData path v]"
  using reqs_request [of T "SetData path v" w]
  by (cases "request T (SetData path v) w") (auto simp: setData_def split: sum.splits)

lemma reqs_getData: "reqs (snd (getData T path w)) = reqs w @ [GetData path]"
  by (simp add: getData_def reqs_request)

lemma reqs_setVolume:
  "reqs (snd (setVolume T v w))
     = reqs w @ [SetData ''player:volume'' (i32_value (clamp (round v) 0 100))]"
  by (simp add: setVolume_def Let_def reqs_setData Math_round_round clamp_min_max)

section \<open>Volume against a speaker that stores it\<close>

lemma setVolume_faithful:
  "setVolume faithful_device v w =
     (Inr (), \<lparr>dev = (dev w)\<lparr>dvolume := clamp (round v) 0 100\<rparr>,
               reqs = reqs w @ [SetData ''player:volume'' (i32_value (clamp (round v) 0 100))]\<rparr>)"
  by (simp add: setVolume_def Let_def setData_def request_def Math_round_round clamp_min_max
      i32_value_def)

lemma getVolume_faithful:
  "getVolume faithful_device w =
     (Inr (JNum (of_int (dvolume (dev w)))),
      \<lparr>dev = dev w, reqs = reqs w @ [GetData ''player:volume'']\<rparr>)"
  by (simp add: getVolume_def getData_def request_def i32_value_def)

text \<open>
  Claim C3.  For every real \<open>v\<close>, \<open>setVolume v\<close> followed by \<open>getVolume\<close>, against a
  speaker that stores the written value and returns it, yields \<open>clamp (round v) 0 100\<close>.
  Whatever the speaker, the one request of \<open>setVolume v\<close> writes that value, an integer
  between 0 and 100.
\<close>

theorem setVolume_then_getVolume:
  "fst (getVolume faithful_device (snd (setVolume faithful_device v w)))
     = Inr (JNum (of_int (clamp (round v) 0 100)))
   \<and> 0 \<le> clamp (round v) 0 100 \<and> clamp (round v) 0 100 \<le> 100
   \<and> reqs (snd (setVolume T v w0))
       = reqs w0 @ [SetData ''player:volume'' (i32_value (clamp (round v) 0 100))]"
  by (simp add: setVolume_faithful getVolume_faithful reqs_setVolume) (simp add: clamp_def)

theorem setVolume_then_getVolume_witness:
  "fst (getVolume faithful_device (snd (setVolume faithful_device (5 / 2)
          \<lparr>dev = \<lparr>dvolume = 40, dsource = ''wifi'', dplayer = JNull, dsubwooferGain = 0\<rparr>,
           reqs = []\<rparr>)))
     = Inr (JNum 3)
   \<and> reqs (snd (setVolume scripted 250 \<lparr>dev = [], reqs = []\<rparr>))
       = [SetData ''player:volume'' (i32_value 100)]"
  using setVolume_then_getVolume [of "5 / 2"
      "\<lparr>dev = \<lparr>dvolume = 40, dsource = ''wifi'', dplayer = JNull, dsubwooferGain = 0\<rparr>, reqs = []\<rparr>"
      scripted "\<lparr>dev = [], reqs = []\<rparr>"]
    setVolume_then_getVolume [of 250
      "\<lparr>dev = \<lparr>dvolume = 40, dsource = ''wifi'', dplayer = JNull, dsubwooferGain = 0\<rparr>, reqs = []\<rparr>"
      scripted "\<lparr>dev = [], reqs = []\<rparr>"]
  by (simp add: clamp_def round_def)

section \<open>A volume read without a usable value\<close>

text \<open>
  Claim C4, as stated, fails: a response that lacks the field \<open>i32_\<close> makes
  \<open>getVolume\<close> return 0.
\<close>

theorem getVolume_missing_field_counterexample:
  "fst (getVolume scripted \<lparr>dev = [Inr (JArr [JObj [(''type'', JStr ''i32_'')]])], reqs = []\<rparr>)
     = Inr (JNum 0)"
  by (simp add: getVolume_def getData_def request_def)

text \<open>
  Claim C4, amended.  When the transport call fails, \<open>getVolume\<close> throws an error that
  carries the transport's message; when the response arrives without the field \<open>i32_\<close>,
  \<open>getVolume\<close> returns 0.
\<close>

theorem getVolume_failure:
  "(fst (T (dev w) (GetData ''player:volume'')) = Inl e
      \<longrightarrow> fst (getVolume T w) = Inl (Error (''Failed to get volume: '' @ show_error e)))
   \<and> (fst (T (dev w) (GetData ''player:volume'')) = Inr response
        \<and> js_get (js_index0 response) ''i32_'' = JUndefined
      \<longrightarrow> fst (getVolume T w) = Inr (JNum 0))"
  by (cases "T (dev w) (GetData ''player:volume'')")
     (auto simp: getVolume_def getData_def request_def)

theorem getVolume_failure_witness:
  "fst (getVolume scripted \<lparr>dev = [], reqs = []\<rparr>)
     = Inl (Error ''Failed to get volume: Error: Request timeout'')
   \<and> fst (getVolume scripted \<lparr>dev = [Inr JNull], reqs = []\<rparr>) = Inr (JNum 0)"
  using getVolume_failure [of scripted "\<lparr>dev = [], reqs = []\<rparr>" "Error ''Request timeout''" JNull]
    getVolume_failure [of scripted "\<lparr>dev = [Inr JNull], reqs = []\<rparr>" "Error ''Request timeout''" JNull]
  by simp

section \<open>The source command of an unsupported source\<close>

lemma kef_xio_sources:
  "sources (getModelConfig ''kef-xio'') = [''wifi'', ''bluetooth'', ''tv'', ''optical'']"
  by (simp add: getModelConfig_def KEF_MODELS_def)

lemma toLowerCase_usb: "toLowerCase ''usb'' = ''usb''"
  by (simp add: toLowerCase_def lower_char_def)

text \<open>
  Claim C5.  A source whose lower-case form is not in the source list of the device's
  model makes \<open>onCapabilitySource\<close> throw without a request: the world, and with it
  the list of issued requests, is returned unchanged.  In particular so does
  \<open>"usb"\<close> on the model \<open>kef-xio\<close>.  (The error thrown is the handler's
  \<open>Error("Failed to set source")\<close>.)
\<close>

theorem onCapabilitySource_unsupported:
  "(toLowerCase v \<notin> set (sources (getModelConfig modelId))
      \<longrightarrow> onCapabilitySource T modelId v w = (Inl (Error ''Failed to set source''), [], w))
   \<and> onCapabilitySource T ''kef-xio'' ''usb'' w = (Inl (Error ''Failed to set source''), [], w)"
  by (simp add: onCapabilitySource_def isSourceSupported_def kef_xio_sources toLowerCase_usb)

theorem onCapabilitySource_unsupported_witness:
  "onCapabilitySource scripted ''kef-lsx'' ''Coaxial'' (mock [])
     = (Inl (Error ''Failed to set source''), [], mock [])"
proof -
  have "toLowerCase ''Coaxial'' \<notin> set (sources (getModelConfig ''kef-lsx''))"
    by (simp add: toLowerCase_def lower_char_def getModelConfig_def KEF_MODELS_def)
  with onCapabilitySource_unsupported [of "''Coaxial''" "''kef-lsx''" scripted "mock []"]
  show ?thesis by blast
qed

section \<open>The settings snapshot of a speaker in standby\<close>

lemma getPowerState_reqs:
  "reqs (snd (getPowerState T w)) = reqs w @ [GetData physicalSource_path]"
  using reqs_getData [of T physicalSource_path w]
  by (cases "getData T physicalSource_path w")
     (auto simp: getPowerState_def split: sum.splits jsval.splits)

lemma getSource_reqs:
  "reqs (snd (snd (getSource T c w))) = reqs w @ [GetData physicalSource_path]"
  using reqs_getData [of T physicalSource_path w]
  by (cases "getData T physicalSource_path w")
     (auto simp: getSource_def Let_def split: sum.splits jsval.splits)

lemma read_volume_mute_keeps:
  "st_standby (fst (read_volume_mute T c s w)) = st_standby s
   \<and> st_source (fst (read_volume_mute T c s w)) = st_source s"
  by (simp add: read_volume_mute_def split: prod.splits sum.splits)

text \<open>
  Claim C7.  Whenever the snapshot that \<open>getAllSettings\<close> returns says standby (the
  power state read off, the source read failed, or the source read \<open>"standby"\<close>), the
  call has issued exactly two requests, both reads of the physical source: no request
  for the volume (which the mute read uses too) or for the subwoofer gain was made.
\<close>

theorem getAllSettings_standby:
  assumes "getAllSettings T c w = (settings, c', w')"
    and "st_standby settings = Some True \<or> st_source settings = Some ''standby''"
  shows "reqs w' = reqs w @ [GetData physicalSource_path, GetData physicalSource_path]
         \<and> GetData ''player:volume'' \<notin> set (new_reqs w w')
         \<and> GetData subwooferGain_path \<notin> set (new_reqs w w')"
proof -
  obtain p w1 where p: "getPowerState T w = (p, w1)" by (cases "getPowerState T w")
  obtain r c2 w2 where r: "getSource T c w1 = (r, c2, w2)" by (cases "getSource T c w1")
  have w1: "reqs w1 = reqs w @ [GetData physicalSource_path]"
    using getPowerState_reqs [of T w] p by simp
  have w2: "reqs w2 = reqs w1 @ [GetData physicalSource_path]"
    using getSource_reqs [of T c w1] r by simp
  have "w' = w2"
  proof (cases r)
    case (Inl e)
    then show ?thesis using assms(1) p r by (simp add: getAllSettings_def Let_def)
  next
    case (Inr src)
    show ?thesis
    proof (cases "p \<and> src \<noteq> ''standby''")
      case False
      then show ?thesis using assms(1) p r Inr by (auto simp: getAllSettings_def Let_def)
    next
      case True
      let ?s2 = "empty_settings\<lparr>st_standby := Some (\<not> p), st_source := Some src\<rparr>"
      obtain s3 w3 where rv: "read_volume_mute T c2 ?s2 w2 = (s3, w3)"
        by (cases "read_volume_mute T c2 ?s2 w2")
      obtain g w4 where sg: "getSubwooferGain T w3 = (g, w4)"
        by (cases "getSubwooferGain T w3")
      have "settings = s3\<lparr>st_subwooferGain := Some g\<rparr>"
        using assms(1) p r Inr True rv sg by (simp add: getAllSettings_def Let_def)
      moreover have "st_standby s3 = Some False \<and> st_source s3 = Some src"
        using read_volume_mute_keeps [of T c2 ?s2 w2] rv True by simp
      ultimately show ?thesis using assms(2) True by simp
    qed
  qed
  then have a: "reqs w' = reqs w @ [GetData physicalSource_path, GetData physicalSource_path]"
    using w1 w2 by simp
  have "GetData ''player:volume'' \<notin> set (new_reqs w w')"
    using a by (simp add: new_reqs_def physicalSource_path_def)
  moreover have "GetData subwooferGain_path \<notin> set (new_reqs w w')"
    using a by (simp add: new_reqs_def physicalSource_path_def subwooferGain_path_def)
  ultimately show ?thesis using a by simp
qed

theorem getAllSettings_standby_witness:
  "st_standby (fst (getAllSettings faithful_device new_KEFSpeaker (speaker_at 30 ''standby'' JNull)))
     = Some True
   \<and> reqs (snd (snd (getAllSettings faithful_device new_KEFSpeaker (speaker_at 30 ''standby'' JNull))))
     = [GetData physicalSource_path, GetData physicalSource_path]"
proof -
  let ?r = "getAllSettings faithful_device new_KEFSpeaker (speaker_at 30 ''standby'' JNull)"
  have e: "?r = (fst ?r, fst (snd ?r), snd (snd ?r))" by simp
  have h: "st_standby (fst ?r) = Some True"
    by (simp add: getAllSettings_def getPowerState_def getSource_def getData_def request_def
        speaker_at_def physicalSource_path_def kefPhysicalSource_value_def toLowerCase_def
        lower_char_def Let_def empty_settings_def)
  from getAllSettings_standby [OF e] h show ?thesis by (simp add: speaker_at_def)
qed

section \<open>The source read and the power switch\<close>

lemma truthy_index: "js_index0 v \<noteq> JUndefined \<Longrightarrow> truthy v"
  by (cases v) (auto split: list.splits)

lemma truthy_get: "js_get v k \<noteq> JUndefined \<Longrightarrow> truthy v"
  by (cases v) auto

lemma getSource_observed:
  assumes "T (dev w) (GetData physicalSource_path) = (Inr response, d')"
    and "js_get (js_index0 response) ''kefPhysicalSource'' = JStr s"
    and "s \<noteq> []"
  shows "getSource T c w =
           (Inr (toLowerCase s),
            if toLowerCase s \<noteq> ''standby'' then c\<lparr>lastActiveSource := toLowerCase s\<rparr> else c,
            \<lparr>dev = d', reqs = reqs w @ [GetData physicalSource_path]\<rparr>)"
proof -
  have a: "truthy (js_index0 response)"
    using assms(2) truthy_get [of "js_index0 response" "''kefPhysicalSource''"] by simp
  then have "js_index0 response \<noteq> JUndefined" by (cases "js_index0 response") auto
  then have b: "truthy response" by (rule truthy_index)
  show ?thesis using assms a b
    by (simp add: getSource_def getData_def request_def Let_def)
qed

lemma reqs_setPowerState:
  "reqs (snd (setPowerState T on c w)) =
     reqs w @ [SetData physicalSource_path
                (kefPhysicalSource_value (if on then lastActiveSource c else ''standby''))]"
  by (simp add: setPowerState_def setSource_def reqs_setData)

section \<open>Album art of a source that does not stream\<close>

lemma getSource_reqs_result:
  "getSource T c w = (r, c1, w1) \<Longrightarrow> reqs w1 = reqs w @ [GetData physicalSource_path]"
  using getSource_reqs [of T c w] by simp

lemma updateAlbumArt_other_source:
  assumes "albumArtImage dv" and "isAvailable dv"
    and "getSource T c w = (Inr src, c1, w1)"
    and "src \<noteq> ''wifi''" and "src \<noteq> ''bluetooth''"
  shows "updateAlbumArt T f dv c w =
           (if currentAlbumArtUrl dv \<noteq> JNull then show_image f JNull else [],
            dv\<lparr>currentAlbumArtUrl := JNull\<rparr>, c1, w1)"
  using assms by (simp add: updateAlbumArt_def)

lemma updateAlbumArt_streaming_only:
  assumes "updateAlbumArt T f dv c w = (calls, dv', c', w')"
    and "GetData playerData_path \<in> set (new_reqs w w')
         \<or> (\<exists>u. u \<noteq> JNull \<and> ImageUtil_updateAlbumArt u \<in> set calls)"
  shows "fst (getSource T c w) = Inr ''wifi'' \<or> fst (getSource T c w) = Inr ''bluetooth''"
proof (rule ccontr)
  assume n: "\<not> ?thesis"
  obtain r c1 w1 where g: "getSource T c w = (r, c1, w1)" by (cases "getSource T c w")
  have w1: "reqs w1 = reqs w @ [GetData physicalSource_path]"
    using getSource_reqs_result [OF g] .
  have "(w' = w \<or> w' = w1) \<and> (\<forall>u. ImageUtil_updateAlbumArt u \<in> set calls \<longrightarrow> u = JNull)"
    using assms(1) g n
    by (cases r) (auto simp: updateAlbumArt_def show_image_def split: if_splits)
  then show False
    using assms(2) w1
    by (auto simp: new_reqs_def physicalSource_path_def playerData_path_def)
qed

lemma updateAlbumArt_polls_non_streaming:
  assumes "albumArtImage dv" and "isAvailable dv"
    and "stays_non_streaming T (f # fs) dv c w"
    and "updateAlbumArt_polls T (f # fs) dv c w = (calls, dv2, c2, w2)"
  shows "calls = (if currentAlbumArtUrl dv \<noteq> JNull then show_image f JNull else [])
         \<and> currentAlbumArtUrl dv2 = JNull
         \<and> reqs w2 = reqs w @ replicate (Suc (length fs)) (GetData physicalSource_path)"
  using assms
proof (induction fs arbitrary: f dv c w calls dv2 c2 w2)
  case Nil
  obtain r c1 w1 where g: "getSource T c w = (r, c1, w1)" by (cases "getSource T c w")
  then obtain src where r: "r = Inr src" "src \<noteq> ''wifi''" "src \<noteq> ''bluetooth''"
    using Nil.prems(3) by (cases r) auto
  have u: "updateAlbumArt T f dv c w =
           (if currentAlbumArtUrl dv \<noteq> JNull then show_image f JNull else [],
            dv\<lparr>currentAlbumArtUrl := JNull\<rparr>, c1, w1)"
    using updateAlbumArt_other_source [OF Nil.prems(1,2) _ r(2,3), of T c w c1 w1 f] g r(1)
    by simp
  show ?case using Nil.prems(4) u getSource_reqs_result [OF g] by auto
next
  case (Cons f' fs)
  obtain r c1 w1 where g: "getSource T c w = (r, c1, w1)" by (cases "getSource T c w")
  then obtain src where r: "r = Inr src" "src \<noteq> ''wifi''" "src \<noteq> ''bluetooth''"
    using Cons.prems(3) by (cases r) auto
  let ?dv1 = "dv\<lparr>currentAlbumArtUrl := JNull\<rparr>"
  have u: "updateAlbumArt T f dv c w =
           (if currentAlbumArtUrl dv \<noteq> JNull then show_image f JNull else [], ?dv1, c1, w1)"
    using updateAlbumArt_other_source [OF Cons.prems(1,2) _ r(2,3), of T c w c1 w1 f] g r(1)
    by simp
  obtain calls' dv3 c3 w3
    where rest: "updateAlbumArt_polls T (f' # fs) ?dv1 c1 w1 = (calls', dv3, c3, w3)"
    by (cases "updateAlbumArt_polls T (f' # fs) ?dv1 c1 w1") auto
  have s: "stays_non_streaming T (f' # fs) ?dv1 c1 w1"
    using Cons.prems(3) g r u by simp
  have ih: "calls' = (if currentAlbumArtUrl ?dv1 \<noteq> JNull then show_image f' JNull else [])
         \<and> currentAlbumArtUrl dv3 = JNull
         \<and> reqs w3 = reqs w1 @ replicate (Suc (length fs)) (GetData physicalSource_path)"
    using Cons.IH [OF _ _ s rest] Cons.prems(1,2) by simp
  have tot: "calls = (if currentAlbumArtUrl dv \<noteq> JNull then show_image f JNull else []) @ calls'
             \<and> dv2 = dv3 \<and> w2 = w3"
    using Cons.prems(4) u rest by simp
  show ?case using ih tot getSource_reqs_result [OF g] by simp
qed

lemma getSource_faithful:
  "dsource (dev w) \<noteq> [] \<Longrightarrow>
     getSource faithful_device c w =
       (Inr (toLowerCase (dsource (dev w))),
        if toLowerCase (dsource (dev w)) \<noteq> ''standby''
        then c\<lparr>lastActiveSource := toLowerCase (dsource (dev w))\<rparr> else c,
        \<lparr>dev = dev w, reqs = reqs w @ [GetData physicalSource_path]\<rparr>)"
  by (simp add: getSource_def getData_def request_def physicalSource_path_def
      kefPhysicalSource_value_def Let_def)

text \<open>
  Claim C9.  An album-art step requests the player data, or displays a picture, only
  if its source read gave \<open>"wifi"\<close> or \<open>"bluetooth"\<close>.  Over one or more polls of a
  connected device during which the source read keeps giving another source, the only
  display calls are those of the first poll, which clears the picture if a URL was
  stored and does nothing otherwise; the stored URL is \<open>null\<close> afterwards, and each
  poll has issued the source read and no other request.
\<close>

theorem updateAlbumArt_clears_once:
  "(updateAlbumArt T f dv c w = (calls, dv', c', w')
      \<and> (GetData playerData_path \<in> set (new_reqs w w')
          \<or> (\<exists>u. u \<noteq> JNull \<and> ImageUtil_updateAlbumArt u \<in> set calls))
    \<longrightarrow> fst (getSource T c w) = Inr ''wifi'' \<or> fst (getSource T c w) = Inr ''bluetooth'')
   \<and> (albumArtImage dv \<and> isAvailable dv \<and> stays_non_streaming T (f # fs) dv c w
        \<and> updateAlbumArt_polls T (f # fs) dv c w = (calls2, dv2, c2, w2)
      \<longrightarrow> calls2 = (if currentAlbumArtUrl dv \<noteq> JNull then show_image f JNull else [])
          \<and> currentAlbumArtUrl dv2 = JNull
          \<and> reqs w2 = reqs w @ replicate (Suc (length fs)) (GetData physicalSource_path))"
  using updateAlbumArt_streaming_only [of T f dv c w calls dv' c' w']
    updateAlbumArt_polls_non_streaming [of dv T f fs c w calls2 dv2 c2 w2]
  by blast

theorem updateAlbumArt_clears_once_witness:
  "fst (updateAlbumArt_polls faithful_device [False, False, False]
          (connected_device\<lparr>currentAlbumArtUrl := JStr ''http://10.0.0.5/art.jpg''\<rparr>)
          new_KEFSpeaker (speaker_at 30 ''tv'' JNull))
     = [ImageUtil_updateAlbumArt JNull, SetAlbumArtImage]
   \<and> fst (getSource faithful_device new_KEFSpeaker
            (speaker_at 30 ''wifi''
               (JArr [JObj [(''state'', JStr ''playing''),
                            (''trackRoles'', JObj [(''icon'', JStr ''http://10.0.0.5/art.jpg'')])]])))
       = Inr ''wifi''"
proof -
  let ?dv = "connected_device\<lparr>currentAlbumArtUrl := JStr ''http://10.0.0.5/art.jpg''\<rparr>"
  let ?w = "speaker_at 30 ''tv'' JNull"
  let ?fs = "[False, False, False]"
  let ?r = "updateAlbumArt_polls faithful_device ?fs ?dv new_KEFSpeaker ?w"
  let ?pd = "JArr [JObj [(''state'', JStr ''playing''),
                         (''trackRoles'', JObj [(''icon'', JStr ''http://10.0.0.5/art.jpg'')])]]"
  let ?w' = "speaker_at 30 ''wifi'' ?pd"
  let ?u = "updateAlbumArt faithful_device False connected_device new_KEFSpeaker ?w'"
  have h1: "albumArtImage ?dv \<and> isAvailable ?dv" by (simp add: connected_device_def)
  have h2: "stays_non_streaming faithful_device ?fs ?dv new_KEFSpeaker ?w"
    by (simp add: getSource_faithful updateAlbumArt_def connected_device_def speaker_at_def
        toLowerCase_def lower_char_def)
  have h3: "?r = (fst ?r, fst (snd ?r), fst (snd (snd ?r)), snd (snd (snd ?r)))" by simp
  have h4: "?u = (fst ?u, fst (snd ?u), fst (snd (snd ?u)), snd (snd (snd ?u)))" by simp
  have h5: "GetData playerData_path \<in> set (new_reqs ?w' (snd (snd (snd ?u))))"
    by (simp add: updateAlbumArt_def connected_device_def getSource_faithful getAlbumArtUrl_def
        getData_def request_def speaker_at_def playerData_path_def physicalSource_path_def
        albumArt_playerData_def albumArt_icon_def js_strict_eq_def new_reqs_def
        toLowerCase_def lower_char_def)
  from updateAlbumArt_clears_once [where T = faithful_device and f = False and fs = "[False, False]"
      and dv = ?dv and c = new_KEFSpeaker and w = ?w and ?calls2.0 = "fst ?r"
      and ?dv2.0 = "fst (snd ?r)" and ?c2.0 = "fst (snd (snd ?r))" and ?w2.0 = "snd (snd (snd ?r))"]
    updateAlbumArt_clears_once [where T = faithful_device and f = False and dv = connected_device
      and c = new_KEFSpeaker and w = ?w' and calls = "fst ?u" and dv' = "fst (snd ?u)"
      and c' = "fst (snd (snd ?u))" and w' = "snd (snd (snd ?u))"]
    h1 h2 h3 h4 h5
  show ?thesis
    by (simp add: show_image_def getSource_faithful speaker_at_def toLowerCase_def lower_char_def)
qed

section \<open>Track metadata in its four shapes\<close>

lemma truthy_field: "truthy (js_get v k) \<Longrightarrow> truthy v"
  by (cases v) auto

lemma extract_trackRoles_title:
  "title (extract_trackRoles track info) =
     (if truthy (js_get (js_get track ''trackRoles'') ''title'')
      then js_get (js_get track ''trackRoles'') ''title'' else title info)"
  using truthy_field [of "js_get track ''trackRoles''" "''title''"]
  by (simp add: extract_trackRoles_def Let_def)

lemma extract_trackRoles_artist:
  "artist (extract_trackRoles track info) =
     (if truthy (js_get (js_get (js_get (js_get track ''trackRoles'') ''mediaData'') ''metaData'')
                   ''artist'')
      then js_get (js_get (js_get (js_get track ''trackRoles'') ''mediaData'') ''metaData'') ''artist''
      else artist info)"
  using truthy_field [of "js_get track ''trackRoles''" "''mediaData''"]
    truthy_field [of "js_get (js_get track ''trackRoles'') ''mediaData''" "''metaData''"]
    truthy_field [of "js_get (js_get (js_get track ''trackRoles'') ''mediaData'') ''metaData''"
      "''artist''"]
  by (simp add: extract_trackRoles_def Let_def)

lemma extract_trackRoles_album:
  "album (extract_trackRoles track info) =
     (if truthy (js_get (js_get (js_get (js_get track ''trackRoles'') ''mediaData'') ''metaData'')
                   ''album'')
      then js_get (js_get (js_get (js_get track ''trackRoles'') ''mediaData'') ''metaData'') ''album''
      else album info)"
  using truthy_field [of "js_get track ''trackRoles''" "''mediaData''"]
    truthy_field [of "js_get (js_get track ''trackRoles'') ''mediaData''" "''metaData''"]
    truthy_field [of "js_get (js_get (js_get track ''trackRoles'') ''mediaData'') ''metaData''"
      "''album''"]
  by (simp add: extract_trackRoles_def Let_def)

lemma extract_direct_fields:
  "title (extract_direct v info) =
     (if \<not> truthy (title info) \<and> truthy (js_get v ''title'') then js_get v ''title''
      else title info)"
  "artist (extract_direct v info) =
     (if \<not> truthy (artist info) \<and> truthy (js_get v ''artist'') then js_get v ''artist''
      else artist info)"
  "album (extract_direct v info) =
     (if \<not> truthy (album info) \<and> truthy (js_get v ''album'') then js_get v ''album''
      else album info)"
  by (simp_all add: extract_direct_def Let_def)

lemma extract_under_fields:
  "title (extract_under key track info) =
     (if \<not> truthy (title info) \<and> truthy (js_get (js_get track key) ''title'')
      then js_get (js_get track key) ''title'' else title info)"
  "artist (extract_under key track info) =
     (if \<not> truthy (artist info) \<and> truthy (js_get (js_get track key) ''artist'')
      then js_get (js_get track key) ''artist'' else artist info)"
  "album (extract_under key track info) =
     (if \<not> truthy (album info) \<and> truthy (js_get (js_get track key) ''album'')
      then js_get (js_get track key) ''album'' else album info)"
  using truthy_field [of "js_get track key" "''title''"]
    truthy_field [of "js_get track key" "''artist''"]
    truthy_field [of "js_get track key" "''album''"]
  by (auto simp: extract_under_def extract_direct_fields)

lemma extract_metadata_fields:
  assumes "title info = JUndefined" "artist info = JUndefined" "album info = JUndefined"
  shows "title (extract_metadata track info) = first_match (title_candidates track)"
    and "artist (extract_metadata track info) = first_match (artist_candidates track)"
    and "album (extract_metadata track info) = first_match (album_candidates track)"
  using assms
  by (simp_all add: extract_metadata_def Let_def extract_under_fields extract_direct_fields
      extract_trackRoles_title extract_trackRoles_artist extract_trackRoles_album
      title_candidates_def artist_candidates_def album_candidates_def)

lemma getSource_faithful_succeeds:
  "\<exists>s c1. getSource faithful_device c w
     = (Inr s, c1, \<lparr>dev = dev w, reqs = reqs w @ [GetData physicalSource_path]\<rparr>)"
  by (simp add: getSource_def getData_def request_def physicalSource_path_def
      kefPhysicalSource_value_def Let_def)

lemma getPlaybackInfo_faithful:
  assumes "dplayer (dev w) = JArr [track]" and "truthy track"
  shows "\<exists>info. title info = JUndefined \<and> artist info = JUndefined \<and> album info = JUndefined
           \<and> duration info = JUndefined \<and> position info = JUndefined
           \<and> albumArtUrl info = JUndefined
           \<and> pi_isPlaying info = JBool (js_get track ''state'' = JStr ''playing'')
           \<and> fst (getPlaybackInfo faithful_device c w)
               = (if js_get track ''state'' = JStr ''stopped'' then info
                  else extract_metadata track info)"
proof -
  let ?w1 = "\<lparr>dev = dev w, reqs = reqs w @ [GetData playerData_path]\<rparr>"
  have p: "snd (isPlaying faithful_device w) = ?w1"
    by (simp add: isPlaying_def getData_def request_def playerData_path_def physicalSource_path_def)
  have q: "fst (isPlaying faithful_device w) = JBool (js_get track ''state'' = JStr ''playing'')"
    using assms
    by (simp add: isPlaying_def getData_def request_def playerData_path_def
        physicalSource_path_def js_and_def)
  obtain s c1 where g: "getSource faithful_device c ?w1
     = (Inr s, c1, \<lparr>dev = dev w, reqs = reqs ?w1 @ [GetData physicalSource_path]\<rparr>)"
    using getSource_faithful_succeeds [of c ?w1] by auto
  let ?w2 = "\<lparr>dev = dev w, reqs = reqs ?w1 @ [GetData physicalSource_path]\<rparr>"
  have d: "getData faithful_device playerData_path ?w2
             = (Inr (JArr [track]), \<lparr>dev = dev w, reqs = reqs ?w2 @ [GetData playerData_path]\<rparr>)"
    using assms(1)
    by (simp add: getData_def request_def playerData_path_def physicalSource_path_def)
  let ?info = "empty_info\<lparr>pi_isPlaying := fst (isPlaying faithful_device w), pi_source := JStr s\<rparr>"
  have "fst (getPlaybackInfo faithful_device c w)
          = (if js_get track ''state'' = JStr ''stopped'' then ?info
             else extract_metadata track ?info)"
    using p g d assms(2)
    by (cases "isPlaying faithful_device w") (simp add: getPlaybackInfo_def Let_def)
  moreover have "title ?info = JUndefined \<and> artist ?info = JUndefined \<and> album ?info = JUndefined
      \<and> duration ?info = JUndefined \<and> position ?info = JUndefined \<and> albumArtUrl ?info = JUndefined
      \<and> pi_isPlaying ?info = JBool (js_get track ''state'' = JStr ''playing'')"
    using q by (simp add: empty_info_def)
  ultimately show ?thesis by blast
qed

lemma shape_flat_match:
  assumes "truthy t" and "truthy a" and "truthy b"
  shows "first_match (title_candidates (shape_flat t a b)) = t
         \<and> first_match (artist_candidates (shape_flat t a b)) = a
         \<and> first_match (album_candidates (shape_flat t a b)) = b"
  using assms
  by (simp add: shape_flat_def title_candidates_def artist_candidates_def album_candidates_def)

lemma shape_trackRoles_match:
  assumes "truthy t" and "truthy a" and "truthy b"
  shows "first_match (title_candidates (shape_trackRoles t a b)) = t
         \<and> first_match (artist_candidates (shape_trackRoles t a b)) = a
         \<and> first_match (album_candidates (shape_trackRoles t a b)) = b"
  using assms
  by (simp add: shape_trackRoles_def title_candidates_def artist_candidates_def
      album_candidates_def)

lemma shape_metadata_match:
  assumes "truthy t" and "truthy a" and "truthy b"
  shows "first_match (title_candidates (shape_metadata t a b)) = t
         \<and> first_match (artist_candidates (shape_metadata t a b)) = a
         \<and> first_match (album_candidates (shape_metadata t a b)) = b"
  using assms
  by (simp add: shape_metadata_def title_candidates_def artist_candidates_def
      album_candidates_def)

lemma shape_metaData_match:
  assumes "truthy t" and "truthy a" and "truthy b"
  shows "first_match (title_candidates (shape_metaData t a b)) = t
         \<and> first_match (artist_candidates (shape_metaData t a b)) = a
         \<and> first_match (album_candidates (shape_metaData t a b)) = b"
  using assms
  by (simp add: shape_metaData_def title_candidates_def artist_candidates_def
      album_candidates_def)

lemma shapes_playing:
  "truthy (shape_flat t a b) \<and> js_get (shape_flat t a b) ''state'' \<noteq> JStr ''stopped''"
  "truthy (shape_trackRoles t a b) \<and> js_get (shape_trackRoles t a b) ''state'' \<noteq> JStr ''stopped''"
  "truthy (shape_metadata t a b) \<and> js_get (shape_metadata t a b) ''state'' \<noteq> JStr ''stopped''"
  "truthy (shape_metaData t a b) \<and> js_get (shape_metaData t a b) ''state'' \<noteq> JStr ''stopped''"
  by (simp_all add: shape_flat_def shape_trackRoles_def shape_metadata_def shape_metaData_def)

lemma shapes_first_match:
  assumes "truthy t" and "truthy a" and "truthy b"
    and "track = shape_flat t a b \<or> track = shape_trackRoles t a b
         \<or> track = shape_metadata t a b \<or> track = shape_metaData t a b"
  shows "first_match (title_candidates track) = t
         \<and> first_match (artist_candidates track) = a
         \<and> first_match (album_candidates track) = b
         \<and> truthy track \<and> js_get track ''state'' \<noteq> JStr ''stopped''"
  using assms(4) shape_flat_match [OF assms(1,2,3)] shape_trackRoles_match [OF assms(1,2,3)]
    shape_metadata_match [OF assms(1,2,3)] shape_metaData_match [OF assms(1,2,3)]
    shapes_playing [of t a b]
  by (elim disjE) simp_all

text \<open>
  Claim C6.  Against a speaker whose player data is the one-element array \<open>[track]\<close>:
  when \<open>track\<close> carries a non-empty title \<open>t\<close>, artist \<open>a\<close> and album \<open>b\<close> in any
  of the four shapes, \<open>getPlaybackInfo\<close> returns exactly \<open>t\<close>, \<open>a\<close> and \<open>b\<close>; for
  every track that is not stopped each of the three fields is the first non-empty
  candidate in the fixed order \<open>trackRoles\<close>, top level, \<open>metadata\<close>, \<open>metaData\<close>;
  and when the state of \<open>track\<close> is \<open>"stopped"\<close> nothing is extracted, whatever else
  \<open>track\<close> carries, and the result says that nothing is playing.
\<close>

theorem getPlaybackInfo_shapes:
  assumes "dplayer (dev w) = JArr [track]"
  shows "(truthy t \<and> truthy a \<and> truthy b
            \<and> (track = shape_flat t a b \<or> track = shape_trackRoles t a b
                \<or> track = shape_metadata t a b \<or> track = shape_metaData t a b)
          \<longrightarrow> title (fst (getPlaybackInfo faithful_device c w)) = t
              \<and> artist (fst (getPlaybackInfo faithful_device c w)) = a
              \<and> album (fst (getPlaybackInfo faithful_device c w)) = b)
       \<and> (truthy track \<and> js_get track ''state'' \<noteq> JStr ''stopped''
          \<longrightarrow> title (fst (getPlaybackInfo faithful_device c w))
                  = first_match (title_candidates track)
              \<and> artist (fst (getPlaybackInfo faithful_device c w))
                  = first_match (artist_candidates track)
              \<and> album (fst (getPlaybackInfo faithful_device c w))
                  = first_match (album_candidates track))
       \<and> (js_get track ''state'' = JStr ''stopped''
          \<longrightarrow> title (fst (getPlaybackInfo faithful_device c w)) = JUndefined
              \<and> artist (fst (getPlaybackInfo faithful_device c w)) = JUndefined
              \<and> album (fst (getPlaybackInfo faithful_device c w)) = JUndefined
              \<and> duration (fst (getPlaybackInfo faithful_device c w)) = JUndefined
              \<and> position (fst (getPlaybackInfo faithful_device c w)) = JUndefined
              \<and> albumArtUrl (fst (getPlaybackInfo faithful_device c w)) = JUndefined
              \<and> pi_isPlaying (fst (getPlaybackInfo faithful_device c w)) = JBool False)"
proof -
  let ?I = "fst (getPlaybackInfo faithful_device c w)"
  have general: "title ?I = first_match (title_candidates track)
                 \<and> artist ?I = first_match (artist_candidates track)
                 \<and> album ?I = first_match (album_candidates track)"
    if tt: "truthy track" and ns: "js_get track ''state'' \<noteq> JStr ''stopped''"
  proof -
    obtain info where i: "title info = JUndefined" "artist info = JUndefined"
        "album info = JUndefined" "?I = extract_metadata track info"
      using getPlaybackInfo_faithful [OF assms tt, of c] ns by auto
    show ?thesis using extract_metadata_fields [OF i(1,2,3), of track] i(4) by simp
  qed
  have shapes: "title ?I = t \<and> artist ?I = a \<and> album ?I = b"
    if "truthy t" and "truthy a" and "truthy b"
      and "track = shape_flat t a b \<or> track = shape_trackRoles t a b
           \<or> track = shape_metadata t a b \<or> track = shape_metaData t a b"
    using shapes_first_match [OF that] general by simp
  have stopped: "title ?I = JUndefined \<and> artist ?I = JUndefined \<and> album ?I = JUndefined
                 \<and> duration ?I = JUndefined \<and> position ?I = JUndefined
                 \<and> albumArtUrl ?I = JUndefined \<and> pi_isPlaying ?I = JBool False"
    if s: "js_get track ''state'' = JStr ''stopped''"
  proof -
    have "truthy track" using s truthy_get [of track "''state''"] by simp
    then show ?thesis using getPlaybackInfo_faithful [OF assms, of c] s by auto
  qed
  show ?thesis using general shapes stopped by blast
qed

theorem getPlaybackInfo_shapes_witness:
  "title (fst (getPlaybackInfo faithful_device new_KEFSpeaker
                 (speaker_at 30 ''wifi''
                    (JArr [shape_trackRoles (JStr ''Song'') (JStr ''Band'') (JStr ''Record'')]))))
     = JStr ''Song''
   \<and> album (fst (getPlaybackInfo faithful_device new_KEFSpeaker
                 (speaker_at 30 ''wifi''
                    (JArr [shape_metaData (JStr ''Song'') (JStr ''Band'') (JStr ''Record'')]))))
     = JStr ''Record''
   \<and> artist (fst (getPlaybackInfo faithful_device new_KEFSpeaker
                 (speaker_at 30 ''wifi''
                    (JArr [JObj [(''state'', JStr ''stopped''), (''artist'', JStr ''Band'')]]))))
     = JUndefined"
proof -
  let ?t = "JStr ''Song''" and ?a = "JStr ''Band''" and ?b = "JStr ''Record''"
  have d: "dplayer (dev (speaker_at 30 ''wifi'' p)) = p" for p by (simp add: speaker_at_def)
  have s: "js_get (JObj [(''state'', JStr ''stopped''), (''artist'', JStr ''Band'')]) ''state''
             = JStr ''stopped''"
    by simp
  from getPlaybackInfo_shapes [OF d [of "JArr [shape_trackRoles ?t ?a ?b]"],
      of ?t ?a ?b new_KEFSpeaker]
    getPlaybackInfo_shapes [OF d [of "JArr [shape_metaData ?t ?a ?b]"],
      of ?t ?a ?b new_KEFSpeaker]
    getPlaybackInfo_shapes [OF d [of "JArr [JObj [(''state'', JStr ''stopped''),
      (''artist'', JStr ''Band'')]]"], of ?t ?a ?b new_KEFSpeaker] s
  show ?thesis by simp
qed

section \<open>Mute and unmute\<close>

lemma setMuted_True_faithful:
  "setMuted R faithful_device True c w =
     (Inr (),
      (if 0 < dvolume (dev w) then c\<lparr>previousVolume := JNum (of_int (dvolume (dev w)))\<rparr> else c)
        \<lparr>isMuted := True\<rparr>,
      \<lparr>dev = (dev w)\<lparr>dvolume := 0\<rparr>,
       reqs = reqs w @ [GetData ''player:volume'', SetData ''player:volume'' (i32_value 0)]\<rparr>)"
  by (simp add: setMuted_def getVolume_faithful setVolume_faithful Let_def clamp_def)

lemma setMuted_False_faithful:
  "ToNumber R (previousVolume c) = Some (Fin r) \<Longrightarrow>
   setMuted R faithful_device False c w =
     (Inr (), c\<lparr>isMuted := False\<rparr>,
      \<lparr>dev = (dev w)\<lparr>dvolume := clamp (round r) 0 100\<rparr>,
       reqs = reqs w @ [SetData ''player:volume'' (i32_value (clamp (round r) 0 100))]\<rparr>)"
  by (simp add: setMuted_def setVolume_any_def setVolume_num_def setVolume_faithful)

lemma setMuted_False_flag:
  "ToNumber R (previousVolume c) = Some n \<Longrightarrow>
   \<not> isMuted (fst (snd (setMuted R faithful_device False c w)))"
  by (cases n)
     (simp_all add: setMuted_def setVolume_any_def setVolume_num_def setVolume_faithful
        setData_def request_def)

lemma getMuted_faithful:
  "getMuted faithful_device c w =
     (Inr (dvolume (dev w) = 0 \<and> isMuted c),
      \<lparr>dev = dev w, reqs = reqs w @ [GetData ''player:volume'']\<rparr>)"
  by (simp add: getMuted_def getVolume_faithful)

lemma getSource_previousVolume:
  "previousVolume (fst (snd (getSource T c w))) = previousVolume c"
  by (simp add: getSource_def Let_def split: prod.splits sum.splits jsval.splits)

lemma getPlaybackInfo_client:
  "fst (snd (getPlaybackInfo T c w)) = fst (snd (getSource T c (snd (isPlaying T w))))"
proof -
  obtain pl w1 where p: "isPlaying T w = (pl, w1)" by (cases "isPlaying T w")
  obtain r c2 w2 where g: "getSource T c w1 = (r, c2, w2)" by (cases "getSource T c w1")
  obtain r3 w3 where d: "getData T playerData_path w2 = (r3, w3)"
    by (cases "getData T playerData_path w2")
  show ?thesis
    using p g d by (cases r; cases r3) (simp_all add: getPlaybackInfo_def Let_def)
qed

lemma getAllSettings_client:
  "fst (snd (getAllSettings T c w)) = fst (snd (getSource T c (snd (getPowerState T w))))"
proof -
  obtain p w1 where p: "getPowerState T w = (p, w1)" by (cases "getPowerState T w")
  obtain r c2 w2 where g: "getSource T c w1 = (r, c2, w2)" by (cases "getSource T c w1")
  show ?thesis
    using p g by (cases r) (simp_all add: getAllSettings_def Let_def split: prod.splits)
qed

lemma testConnection_client:
  "fst (snd (testConnection T c w)) = fst (snd (getSource T c w))"
  by (cases "getSource T c w") (auto simp: testConnection_def split: sum.splits)

lemma exec_op_keeps_previousVolume:
  assumes "x \<noteq> SetMuted True" and "x \<noteq> ToggleMute"
  shows "previousVolume (fst (exec_op R T x (c, w))) = previousVolume c"
proof (cases x)
  case (SetMuted m)
  then have "m = False" using assms(1) by simp
  then show ?thesis using SetMuted
    by (simp add: setMuted_def split: prod.splits sum.splits)
qed (use assms in \<open>simp_all add: getSource_previousVolume getPlaybackInfo_client
      getAllSettings_client testConnection_client\<close>)

lemma run_ops_keeps_previousVolume:
  "\<forall>x \<in> set ops. x \<noteq> SetMuted True \<and> x \<noteq> ToggleMute \<Longrightarrow>
     previousVolume (fst (run_ops R T ops (c, w))) = previousVolume c"
proof (induction ops arbitrary: c w)
  case Nil
  then show ?case by simp
next
  case (Cons x xs)
  obtain c1 w1 where e: "exec_op R T x (c, w) = (c1, w1)" by (cases "exec_op R T x (c, w)")
  have "previousVolume c1 = previousVolume c"
    using exec_op_keeps_previousVolume [of x R T c w] Cons.prems e by simp
  then show ?case using Cons e by simp
qed

text \<open>
  Claim C2, as stated, fails.  A speaker at volume 30 is muted twice and then unmuted:
  the volume read immediately before the most recent \<open>setMuted(true)\<close> was 0, a volume
  above 0 had been read before, and \<open>setMuted(false)\<close> sets the volume to 30.
\<close>

theorem mute_twice_counterexample:
  "fst (getVolume faithful_device
          (snd (run_ops no_numeric_strings faithful_device [SetMuted True]
                  (new_KEFSpeaker, speaker_at 30 ''wifi'' JNull))))
     = Inr (JNum 0)
   \<and> dvolume (dev (snd (run_ops no_numeric_strings faithful_device
                          [SetMuted True, SetMuted True, SetMuted False]
                          (new_KEFSpeaker, speaker_at 30 ''wifi'' JNull)))) = 30"
  by (simp add: setMuted_def setVolume_any_def setVolume_num_def getVolume_faithful
      setVolume_faithful speaker_at_def new_KEFSpeaker_def clamp_def Let_def)

text \<open>
  Claim C2, amended.  Against a speaker that stores its volume, and for a client whose
  remembered volume converts to a number: after \<open>setMuted(true)\<close>, \<open>getMuted()\<close>
  returns true; \<open>setMuted(true)\<close> remembers the volume it read when that is above 0
  and keeps the remembered volume otherwise; \<open>setMuted(false)\<close> sets the volume to the
  remembered one, rounded and clamped to 0..100 (so to the volume read by the
  \<open>setMuted(true)\<close> before it when that was between 1 and 100), and leaves the mute
  flag false.  The remembered volume is 50 at first, and no operation other than
  \<open>setMuted(true)\<close>, directly or through \<open>toggleMute\<close>, changes it.
\<close>

theorem mute_unmute:
  "(ToNumber R (previousVolume c) = Some n
      \<and> setMuted R faithful_device True c w = (r1, c1, w1)
      \<and> setMuted R faithful_device False c1 w1 = (r2, c2, w2)
    \<longrightarrow> fst (getMuted faithful_device c1 w1) = Inr True
        \<and> previousVolume c1
            = (if 0 < dvolume (dev w) then JNum (of_int (dvolume (dev w))) else previousVolume c)
        \<and> (\<forall>r. ToNumber R (previousVolume c1) = Some (Fin r)
               \<longrightarrow> dvolume (dev w2) = clamp (round r) 0 100)
        \<and> (0 < dvolume (dev w) \<and> dvolume (dev w) \<le> 100 \<longrightarrow> dvolume (dev w2) = dvolume (dev w))
        \<and> \<not> isMuted c2)
   \<and> ((\<forall>x \<in> set ops. x \<noteq> SetMuted True \<and> x \<noteq> ToggleMute)
        \<longrightarrow> previousVolume (fst (run_ops R T ops (c, w'))) = previousVolume c)
   \<and> previousVolume new_KEFSpeaker = JNum 50
   \<and> (ToNumber R (previousVolume c) = Some (Fin r')
        \<longrightarrow> dvolume (dev (snd (snd (setMuted R faithful_device False c w))))
              = clamp (round r') 0 100
            \<and> \<not> isMuted (fst (snd (setMuted R faithful_device False c w))))"
proof -
  have first: "fst (getMuted faithful_device c1 w1) = Inr True
        \<and> previousVolume c1
            = (if 0 < dvolume (dev w) then JNum (of_int (dvolume (dev w))) else previousVolume c)
        \<and> (\<forall>r. ToNumber R (previousVolume c1) = Some (Fin r)
               \<longrightarrow> dvolume (dev w2) = clamp (round r) 0 100)
        \<and> (0 < dvolume (dev w) \<and> dvolume (dev w) \<le> 100 \<longrightarrow> dvolume (dev w2) = dvolume (dev w))
        \<and> \<not> isMuted c2"
    if n: "ToNumber R (previousVolume c) = Some n"
      and m: "setMuted R faithful_device True c w = (r1, c1, w1)"
      and u: "setMuted R faithful_device False c1 w1 = (r2, c2, w2)"
  proof -
    have c1: "c1 = (if 0 < dvolume (dev w)
                    then c\<lparr>previousVolume := JNum (of_int (dvolume (dev w)))\<rparr> else c)
                     \<lparr>isMuted := True\<rparr>"
      and w1: "w1 = \<lparr>dev = (dev w)\<lparr>dvolume := 0\<rparr>,
                     reqs = reqs w @ [GetData ''player:volume'',
                                      SetData ''player:volume'' (i32_value 0)]\<rparr>"
      using m by (simp_all add: setMuted_True_faithful)
    have a: "fst (getMuted faithful_device c1 w1) = Inr True"
      by (simp add: getMuted_faithful c1 w1)
    have b: "previousVolume c1
            = (if 0 < dvolume (dev w) then JNum (of_int (dvolume (dev w))) else previousVolume c)"
      by (simp add: c1)
    obtain n1 where n1: "ToNumber R (previousVolume c1) = Some n1"
      using b n by (cases "0 < dvolume (dev w)") auto
    have d: "dvolume (dev w2) = clamp (round r) 0 100"
      if "ToNumber R (previousVolume c1) = Some (Fin r)" for r
      using setMuted_False_faithful [OF that, of w1] u by auto
    have e: "dvolume (dev w2) = dvolume (dev w)"
      if "0 < dvolume (dev w) \<and> dvolume (dev w) \<le> 100"
    proof -
      have "ToNumber R (previousVolume c1) = Some (Fin (of_int (dvolume (dev w))))"
        using b that by simp
      from d [OF this] that show ?thesis by (simp add: clamp_def)
    qed
    have f: "\<not> isMuted c2" using setMuted_False_flag [OF n1, of w1] u by simp
    show ?thesis using a b d e f by blast
  qed
  have last: "dvolume (dev (snd (snd (setMuted R faithful_device False c w))))
              = clamp (round r') 0 100
            \<and> \<not> isMuted (fst (snd (setMuted R faithful_device False c w)))"
    if "ToNumber R (previousVolume c) = Some (Fin r')"
    using setMuted_False_faithful [OF that, of w] by simp
  have A: "ToNumber R (previousVolume c) = Some n
      \<and> setMuted R faithful_device True c w = (r1, c1, w1)
      \<and> setMuted R faithful_device False c1 w1 = (r2, c2, w2)
    \<longrightarrow> fst (getMuted faithful_device c1 w1) = Inr True
        \<and> previousVolume c1
            = (if 0 < dvolume (dev w) then JNum (of_int (dvolume (dev w))) else previousVolume c)
        \<and> (\<forall>r. ToNumber R (previousVolume c1) = Some (Fin r)
               \<longrightarrow> dvolume (dev w2) = clamp (round r) 0 100)
        \<and> (0 < dvolume (dev w) \<and> dvolume (dev w) \<le> 100 \<longrightarrow> dvolume (dev w2) = dvolume (dev w))
        \<and> \<not> isMuted c2"
    using first by blast
  have B: "(\<forall>x \<in> set ops. x \<noteq> SetMuted True \<and> x \<noteq> ToggleMute)
        \<longrightarrow> previousVolume (fst (run_ops R T ops (c, w'))) = previousVolume c"
    using run_ops_keeps_previousVolume [of ops R T c w'] by blast
  have C: "previousVolume new_KEFSpeaker = JNum 50" by (simp add: new_KEFSpeaker_def)
  have D: "ToNumber R (previousVolume c) = Some (Fin r')
        \<longrightarrow> dvolume (dev (snd (snd (setMuted R faithful_device False c w))))
              = clamp (round r') 0 100
            \<and> \<not> isMuted (fst (snd (setMuted R faithful_device False c w)))"
    using last by blast
  show ?thesis by (rule conjI [OF A conjI [OF B conjI [OF C D]]])
qed

theorem mute_unmute_witness:
  "fst (getMuted faithful_device
          (fst (snd (setMuted no_numeric_strings faithful_device True new_KEFSpeaker
                       (speaker_at 30 ''wifi'' JNull))))
          (snd (snd (setMuted no_numeric_strings faithful_device True new_KEFSpeaker
                       (speaker_at 30 ''wifi'' JNull)))))
     = Inr True
   \<and> dvolume (dev (snd (snd (setMuted no_numeric_strings faithful_device False
          (fst (snd (setMuted no_numeric_strings faithful_device True new_KEFSpeaker
                       (speaker_at 30 ''wifi'' JNull))))
          (snd (snd (setMuted no_numeric_strings faithful_device True new_KEFSpeaker
                       (speaker_at 30 ''wifi'' JNull))))))))
     = 30
   \<and> previousVolume (fst (run_ops no_numeric_strings faithful_device
                             [SetVolume 70, SetMuted False, GetSource]
                             (new_KEFSpeaker, speaker_at 30 ''wifi'' JNull))) = JNum 50"
proof -
  let ?R = no_numeric_strings
  let ?w = "speaker_at 30 ''wifi'' JNull"
  let ?m = "setMuted ?R faithful_device True new_KEFSpeaker ?w"
  let ?u = "setMuted ?R faithful_device False (fst (snd ?m)) (snd (snd ?m))"
  let ?ops = "[SetVolume 70, SetMuted False, GetSource]"
  have h0: "ToNumber ?R (previousVolume new_KEFSpeaker) = Some (Fin 50)"
    by (simp add: new_KEFSpeaker_def)
  have h1: "?m = (fst ?m, fst (snd ?m), snd (snd ?m))" by simp
  have h2: "?u = (fst ?u, fst (snd ?u), snd (snd ?u))" by simp
  have h3: "\<forall>x \<in> set ?ops. x \<noteq> SetMuted True \<and> x \<noteq> ToggleMute" by simp
  have h4: "0 < dvolume (dev ?w) \<and> dvolume (dev ?w) \<le> 100 \<and> dvolume (dev ?w) = 30"
    by (simp add: speaker_at_def)
  from mute_unmute [where R = ?R and c = new_KEFSpeaker and w = ?w and n = "Fin 50"
      and ?r1.0 = "fst ?m" and ?c1.0 = "fst (snd ?m)" and ?w1.0 = "snd (snd ?m)"
      and ?r2.0 = "fst ?u" and ?c2.0 = "fst (snd ?u)" and ?w2.0 = "snd (snd ?u)" and ops = ?ops
      and T = faithful_device and w' = ?w and r' = 50] h0 h1 h2 h3 h4
  show ?thesis by (simp add: clamp_def)
qed

section \<open>Requests stay within a closed set of speaker states\<close>

lemma request_in:
  "closed_under T S \<Longrightarrow> dev w \<in> S \<Longrightarrow> dev (snd (request T rq w)) \<in> S"
proof -
  assume c: "closed_under T S" and d: "dev w \<in> S"
  have "snd (T (dev w) rq) \<in> S" using c d by (simp add: closed_under_def)
  then show ?thesis by (cases "T (dev w) rq") (simp add: request_def)
qed

lemma getData_in:
  "closed_under T S \<Longrightarrow> dev w \<in> S \<Longrightarrow> dev (snd (getData T path w)) \<in> S"
  by (simp add: getData_def request_in)

lemma setData_in:
  "closed_under T S \<Longrightarrow> dev w \<in> S \<Longrightarrow> dev (snd (setData T path v w)) \<in> S"
  using request_in [of T S w "SetData path v"]
  by (cases "request T (SetData path v) w") (auto simp: setData_def split: sum.splits)

lemma getVolume_in:
  "closed_under T S \<Longrightarrow> dev w \<in> S \<Longrightarrow> dev (snd (getVolume T w)) \<in> S"
  using getData_in [of T S w "''player:volume''"]
  by (cases "getData T ''player:volume'' w") (auto simp: getVolume_def split: sum.splits)

lemma setVolume_in:
  "closed_under T S \<Longrightarrow> dev w \<in> S \<Longrightarrow> dev (snd (setVolume T v w)) \<in> S"
  by (simp add: setVolume_def Let_def setData_in)

lemma setVolume_num_in:
  "closed_under T S \<Longrightarrow> dev w \<in> S \<Longrightarrow> dev (snd (setVolume_num T n w)) \<in> S"
  by (cases n) (simp_all add: setVolume_num_def setData_in setVolume_in)

lemma setVolume_any_in:
  "closed_under T S \<Longrightarrow> dev w \<in> S \<Longrightarrow> dev (snd (setVolume_any R T v w)) \<in> S"
  by (simp add: setVolume_any_def setVolume_num_in split: option.splits)

lemma increaseVolume_in:
  "closed_under T S \<Longrightarrow> dev w \<in> S \<Longrightarrow> dev (snd (increaseVolume R T step w)) \<in> S"
  using getVolume_in [of T S w] setVolume_num_in [of T S "snd (getVolume T w)"]
  by (cases "getVolume T w") (auto simp: increaseVolume_def split: sum.splits option.splits)

lemma decreaseVolume_in:
  "closed_under T S \<Longrightarrow> dev w \<in> S \<Longrightarrow> dev (snd (decreaseVolume R T step w)) \<in> S"
  using getVolume_in [of T S w] setVolume_num_in [of T S "snd (getVolume T w)"]
  by (cases "getVolume T w") (auto simp: decreaseVolume_def split: sum.splits option.splits)

lemma getMuted_in:
  "closed_under T S \<Longrightarrow> dev w \<in> S \<Longrightarrow> dev (snd (getMuted T c w)) \<in> S"
  using getVolume_in [of T S w]
  by (cases "getVolume T w") (auto simp: getMuted_def split: sum.splits)

lemma setMuted_in:
  assumes "closed_under T S" and "dev w \<in> S"
  shows "dev (snd (snd (setMuted R T m c w))) \<in> S"
proof (cases m)
  case False
  then show ?thesis
    using setVolume_any_in [OF assms, of R "previousVolume c"]
    by (cases "setVolume_any R T (previousVolume c) w") (auto simp: setMuted_def split: sum.splits)
next
  case True
  obtain x w1 where g: "getVolume T w = (x, w1)" by (cases "getVolume T w")
  have w1: "dev w1 \<in> S" using getVolume_in [OF assms] g by simp
  have "dev (snd (setVolume T 0 w1)) \<in> S" using setVolume_in [OF assms(1) w1] .
  then show ?thesis
    using True g w1
    by (cases "setVolume T 0 w1")
       (auto simp: setMuted_def Let_def split: sum.splits option.splits)
qed

lemma toggleMute_in:
  assumes "closed_under T S" and "dev w \<in> S"
  shows "dev (snd (snd (toggleMute R T c w))) \<in> S"
proof -
  obtain x w1 where g: "getMuted T c w = (x, w1)" by (cases "getMuted T c w")
  have w1: "dev w1 \<in> S" using getMuted_in [OF assms, of c] g by simp
  show ?thesis
    using g w1 setMuted_in [OF assms(1) w1]
    by (cases x) (simp_all add: toggleMute_def)
qed

lemma getPowerState_in:
  "closed_under T S \<Longrightarrow> dev w \<in> S \<Longrightarrow> dev (snd (getPowerState T w)) \<in> S"
  using getData_in [of T S w physicalSource_path]
  by (cases "getData T physicalSource_path w")
     (auto simp: getPowerState_def split: sum.splits jsval.splits)

lemma getSource_in:
  "closed_under T S \<Longrightarrow> dev w \<in> S \<Longrightarrow> dev (snd (snd (getSource T c w))) \<in> S"
  using getData_in [of T S w physicalSource_path]
  by (cases "getData T physicalSource_path w")
     (auto simp: getSource_def Let_def split: sum.splits jsval.splits)

lemma setPowerState_in:
  "closed_under T S \<Longrightarrow> dev w \<in> S \<Longrightarrow> dev (snd (setPowerState T on c w)) \<in> S"
  by (simp add: setPowerState_def setSource_def setData_in)

lemma testConnection_in:
  "closed_under T S \<Longrightarrow> dev w \<in> S \<Longrightarrow> dev (snd (snd (testConnection T c w))) \<in> S"
  using getSource_in [of T S w c]
  by (cases "getSource T c w") (auto simp: testConnection_def split: sum.splits)

lemma isPlaying_in:
  "closed_under T S \<Longrightarrow> dev w \<in> S \<Longrightarrow> dev (snd (isPlaying T w)) \<in> S"
  using getData_in [of T S w playerData_path]
  by (cases "getData T playerData_path w") (auto simp: isPlaying_def split: sum.splits)

lemma getAlbumArtUrl_in:
  "closed_under T S \<Longrightarrow> dev w \<in> S \<Longrightarrow> dev (snd (getAlbumArtUrl T w)) \<in> S"
  using getData_in [of T S w playerData_path]
  by (cases "getData T playerData_path w")
     (auto simp: getAlbumArtUrl_def split: sum.splits option.splits)

lemma getSubwooferGain_in:
  "closed_under T S \<Longrightarrow> dev w \<in> S \<Longrightarrow> dev (snd (getSubwooferGain T w)) \<in> S"
  using getData_in [of T S w subwooferGain_path]
  by (cases "getData T subwooferGain_path w")
     (auto simp: getSubwooferGain_def split: sum.splits jsval.splits)

lemma getPlaybackInfo_in:
  assumes "closed_under T S" and "dev w \<in> S"
  shows "dev (snd (snd (getPlaybackInfo T c w))) \<in> S"
proof -
  obtain pl w1 where p: "isPlaying T w = (pl, w1)" by (cases "isPlaying T w")
  have w1: "dev w1 \<in> S" using isPlaying_in [OF assms] p by simp
  obtain r c2 w2 where g: "getSource T c w1 = (r, c2, w2)" by (cases "getSource T c w1")
  have w2: "dev w2 \<in> S" using getSource_in [OF assms(1) w1, of c] g by simp
  obtain r3 w3 where d: "getData T playerData_path w2 = (r3, w3)"
    by (cases "getData T playerData_path w2")
  have w3: "dev w3 \<in> S" using getData_in [OF assms(1) w2, of playerData_path] d by simp
  show ?thesis
    using p g d w2 w3 by (cases r; cases r3) (simp_all add: getPlaybackInfo_def Let_def)
qed

lemma read_volume_mute_in:
  assumes "closed_under T S" and "dev w \<in> S"
  shows "dev (snd (read_volume_mute T c s w)) \<in> S"
proof -
  obtain x w1 where g: "getVolume T w = (x, w1)" by (cases "getVolume T w")
  have w1: "dev w1 \<in> S" using getVolume_in [OF assms] g by simp
  obtain y w2 where m: "getMuted T c w1 = (y, w2)" by (cases "getMuted T c w1")
  have w2: "dev w2 \<in> S" using getMuted_in [OF assms(1) w1, of c] m by simp
  show ?thesis
    using g m w1 w2 by (cases x; cases y) (simp_all add: read_volume_mute_def)
qed

lemma getAllSettings_in:
  assumes "closed_under T S" and "dev w \<in> S"
  shows "dev (snd (snd (getAllSettings T c w))) \<in> S"
proof -
  obtain p w1 where p: "getPowerState T w = (p, w1)" by (cases "getPowerState T w")
  have w1: "dev w1 \<in> S" using getPowerState_in [OF assms] p by simp
  obtain r c2 w2 where g: "getSource T c w1 = (r, c2, w2)" by (cases "getSource T c w1")
  have w2: "dev w2 \<in> S" using getSource_in [OF assms(1) w1, of c] g by simp
  show ?thesis
  proof (cases r)
    case (Inl e)
    then show ?thesis using p g w2 by (simp add: getAllSettings_def Let_def)
  next
    case (Inr src)
    have A: "dev w3 \<in> S" if "read_volume_mute T c2 s w2 = (s3, w3)" for s s3 w3
      using read_volume_mute_in [OF assms(1) w2, of c2 s] that by simp
    have B: "dev w4 \<in> S" if "dev w3 \<in> S" and "getSubwooferGain T w3 = (g', w4)" for w3 g' w4
      using getSubwooferGain_in [OF assms(1) that(1)] that(2) by simp
    show ?thesis
      using p g Inr w2 by (auto simp: getAllSettings_def Let_def split: prod.splits dest: A B)
  qed
qed

lemma exec_op_in:
  assumes "closed_under T S" and "dev w \<in> S"
  shows "dev (snd (exec_op R T x (c, w))) \<in> S"
  by (cases x)
     (simp_all add: getPowerState_in setPowerState_in getSource_in setSource_def setData_in
        getVolume_in setVolume_in increaseVolume_in decreaseVolume_in getMuted_in setMuted_in
        toggleMute_in isPlaying_in getAlbumArtUrl_in getPlaybackInfo_in getSubwooferGain_in
        getAllSettings_in testConnection_in assms)

section \<open>The remembered volume\<close>

lemma setMuted_True_positive:
  "remembered_positive R c \<Longrightarrow> remembered_positive R (fst (snd (setMuted R T True c w)))"
  by (cases "getVolume T w")
     (auto simp: setMuted_def remembered_positive_def Let_def
        split: sum.splits option.splits prod.splits)

lemma toggleMute_positive:
  assumes "remembered_positive R c"
  shows "remembered_positive R (fst (snd (toggleMute R T c w)))"
proof -
  obtain x w1 where g: "getMuted T c w = (x, w1)" by (cases "getMuted T c w")
  show ?thesis
  proof (cases x)
    case (Inl e)
    then show ?thesis using g assms by (simp add: toggleMute_def)
  next
    case (Inr m)
    have "previousVolume (fst (snd (setMuted R T False c w1))) = previousVolume c"
      by (simp add: setMuted_def split: prod.splits sum.splits)
    then have "remembered_positive R (fst (snd (setMuted R T False c w1)))"
      using assms by (simp add: remembered_positive_def)
    then show ?thesis
      using g Inr setMuted_True_positive [OF assms, of T w1]
      by (cases m) (simp_all add: toggleMute_def)
  qed
qed

lemma exec_op_positive:
  assumes "remembered_positive R c"
  shows "remembered_positive R (fst (exec_op R T x (c, w)))"
proof (cases "x = SetMuted True \<or> x = ToggleMute")
  case True
  then show ?thesis
    using setMuted_True_positive [OF assms, of T w] toggleMute_positive [OF assms, of T w]
    by auto
next
  case False
  then have "previousVolume (fst (exec_op R T x (c, w))) = previousVolume c"
    using exec_op_keeps_previousVolume [of x R T c w] by simp
  then show ?thesis using assms by (simp add: remembered_positive_def)
qed

lemma run_ops_positive:
  "remembered_positive R c \<Longrightarrow> remembered_positive R (fst (run_ops R T ops (c, w)))"
proof (induction ops arbitrary: c w)
  case Nil
  then show ?case by simp
next
  case (Cons x xs)
  obtain c1 w1 where e: "exec_op R T x (c, w) = (c1, w1)" by (cases "exec_op R T x (c, w)")
  have "remembered_positive R c1" using exec_op_positive [OF Cons.prems, of T x w] e by simp
  then show ?case using Cons.IH e by simp
qed

lemma getVolume_whole:
  assumes "whole_volumes T S" and "dev w \<in> S" and "fst (getVolume T w) = Inr v"
  shows "\<exists>r. v = JNum r \<and> r = of_int \<lfloor>r\<rfloor>"
proof -
  obtain x d where t: "T (dev w) (GetData ''player:volume'') = (x, d)"
    by (cases "T (dev w) (GetData ''player:volume'')")
  have "case x of Inl e \<Rightarrow> True | Inr response \<Rightarrow> integral_volume response"
    using assms(1,2) t by (auto simp: whole_volumes_def dest!: bspec)
  then show ?thesis
    using assms(3) t
    by (cases x)
       (auto simp: getVolume_def getData_def request_def integral_volume_def
          split: if_splits jsval.splits)
qed

lemma setMuted_True_whole:
  assumes "whole_volumes T S" and "dev w \<in> S" and "remembered_whole c"
  shows "remembered_whole (fst (snd (setMuted R T True c w)))"
proof -
  obtain x w1 where g: "getVolume T w = (x, w1)" by (cases "getVolume T w")
  show ?thesis
  proof (cases x)
    case (Inl e)
    then show ?thesis using g assms(3) by (simp add: setMuted_def)
  next
    case (Inr v)
    then obtain r where r: "v = JNum r" "r = of_int \<lfloor>r\<rfloor>"
      using getVolume_whole [OF assms(1,2), of v] g by auto
    show ?thesis
      using g Inr r assms(3)
      by (cases "setVolume T 0 w1")
         (auto simp: setMuted_def Let_def remembered_whole_def split: sum.splits)
  qed
qed

lemma exec_op_whole:
  assumes "closed_under T S" and "whole_volumes T S" and "dev w \<in> S" and "remembered_whole c"
  shows "remembered_whole (fst (exec_op R T x (c, w)))"
proof (cases "x = SetMuted True \<or> x = ToggleMute")
  case False
  then have "previousVolume (fst (exec_op R T x (c, w))) = previousVolume c"
    using exec_op_keeps_previousVolume [of x R T c w] by simp
  then show ?thesis using assms(4) by (simp add: remembered_whole_def)
next
  case True
  then show ?thesis
  proof
    assume "x = SetMuted True"
    then show ?thesis using setMuted_True_whole [OF assms(2,3,4), of R] by simp
  next
    assume x: "x = ToggleMute"
    obtain y w1 where g: "getMuted T c w = (y, w1)" by (cases "getMuted T c w")
    have w1: "dev w1 \<in> S" using getMuted_in [OF assms(1,3), of c] g by simp
    have f: "previousVolume (fst (snd (setMuted R T False c w1))) = previousVolume c"
      by (simp add: setMuted_def split: prod.splits sum.splits)
    have "remembered_whole (fst (snd (setMuted R T m c w1)))" for m
      using setMuted_True_whole [OF assms(2) w1 assms(4), of R] f assms(4)
      by (cases m) (simp_all add: remembered_whole_def)
    then show ?thesis using x g assms(4) by (cases y) (simp_all add: toggleMute_def)
  qed
qed

lemma run_ops_whole:
  assumes "closed_under T S" and "whole_volumes T S"
  shows "dev w \<in> S \<Longrightarrow> remembered_whole c \<Longrightarrow>
         remembered_whole (fst (run_ops R T ops (c, w))) \<and> dev (snd (run_ops R T ops (c, w))) \<in> S"
proof (induction ops arbitrary: c w)
  case Nil
  then show ?case by simp
next
  case (Cons x xs)
  obtain c1 w1 where e: "exec_op R T x (c, w) = (c1, w1)" by (cases "exec_op R T x (c, w)")
  have a: "remembered_whole c1"
    using exec_op_whole [OF assms Cons.prems, of R x] e by simp
  have b: "dev w1 \<in> S" using exec_op_in [OF assms(1) Cons.prems(1), of R x c] e by simp
  show ?case using Cons.IH [OF b a] e by simp
qed

lemma setMuted_False_reqs:
  "ToNumber R (previousVolume c) = Some (Fin r) \<Longrightarrow>
   reqs (snd (snd (setMuted R T False c w)))
     = reqs w @ [SetData ''player:volume'' (i32_value (clamp (round r) 0 100))]"
  using reqs_setVolume [of T r w]
  by (cases "setVolume T r w")
     (auto simp: setMuted_def setVolume_any_def setVolume_num_def split: sum.splits)

lemma setMuted_False_reqs_PosInf:
  "ToNumber R (previousVolume c) = Some PosInf \<Longrightarrow>
   reqs (snd (snd (setMuted R T False c w)))
     = reqs w @ [SetData ''player:volume'' (i32_value 100)]"
  using reqs_setData [of T "''player:volume''" "i32_value 100" w]
  by (cases "setData T ''player:volume'' (i32_value 100) w")
     (auto simp: setMuted_def setVolume_any_def setVolume_num_def split: sum.splits)

lemma clamp_round_zero: "(clamp (round (r::real)) 0 100 = 0) = (r < 1 / 2)"
proof -
  have "(round r \<le> 0) = (r < 1 / 2)" unfolding round_def by linarith
  then show ?thesis by (auto simp: clamp_def)
qed

lemma clamp_round_whole:
  "0 < (r::real) \<Longrightarrow> r = of_int \<lfloor>r\<rfloor> \<Longrightarrow>
     1 \<le> clamp (round r) 0 100 \<and> clamp (round r) 0 100 \<le> 100"
proof -
  assume p: "0 < r" and i: "r = of_int \<lfloor>r\<rfloor>"
  have "round r = \<lfloor>r\<rfloor>" using i by (metis round_of_int)
  moreover have "0 < \<lfloor>r\<rfloor>" using p i by (metis of_int_0_less_iff)
  ultimately show ?thesis by (simp add: clamp_def)
qed

text \<open>
  Claim C10, as stated, fails.  The speaker reports the volume 0.3; \<open>setMuted(true)\<close>
  remembers it, since it is above 0, and \<open>setMuted(false)\<close> then writes it rounded:
  the last request sets the volume to 0.
\<close>

theorem unmute_writes_zero_counterexample:
  "previousVolume (fst (run_ops no_numeric_strings scripted [SetMuted True]
      (new_KEFSpeaker,
       mock [Inr (JArr [JObj [(''type'', JStr ''i32_''), (''i32_'', JNum (3 / 10))]]),
             Inr JNull, Inr JNull]))) = JNum (3 / 10)
   \<and> reqs (snd (run_ops no_numeric_strings scripted [SetMuted True, SetMuted False]
      (new_KEFSpeaker,
       mock [Inr (JArr [JObj [(''type'', JStr ''i32_''), (''i32_'', JNum (3 / 10))]]),
             Inr JNull, Inr JNull])))
     = [GetData ''player:volume'', SetData ''player:volume'' (i32_value 0),
        SetData ''player:volume'' (i32_value 0)]"
  by (simp add: setMuted_def setVolume_any_def setVolume_num_def setVolume_def getVolume_def
      getData_def setData_def request_def mock_def new_KEFSpeaker_def Let_def
      Math_round_def)

text \<open>
  Claim C10, amended.  After every sequence of operations of a new client, against any
  speaker: the remembered previous volume counts as above 0 (it is 50 at first and
  \<open>setMuted(true)\<close> overwrites it only with a volume read as above 0);
  \<open>setMuted(false)\<close> writes it rounded to the nearest whole number and clamped to
  0..100 (100 for an infinity), which is 0 exactly when the remembered volume is below
  0.5; and when every volume that the speaker reports is a whole number, the remembered
  volume is a positive whole number and \<open>setMuted(false)\<close> writes a volume between
  1 and 100.
\<close>

theorem unmute_writes_remembered:
  assumes "run_ops R T ops (new_KEFSpeaker, w0) = (c, w)"
  shows "remembered_positive R c
    \<and> (\<exists>n. ToNumber R (previousVolume c) = Some n \<and> js_gt0 n
           \<and> reqs (snd (snd (setMuted R T False c w)))
               = reqs w @ [SetData ''player:volume''
                    (i32_value (case n of Fin r \<Rightarrow> clamp (round r) 0 100 | other \<Rightarrow> 100))]
           \<and> ((case n of Fin r \<Rightarrow> clamp (round r) 0 100 | other \<Rightarrow> 100) = 0)
               = (case n of Fin r \<Rightarrow> r < 1 / 2 | other \<Rightarrow> False))
    \<and> (closed_under T S \<and> whole_volumes T S \<and> dev w0 \<in> S
          \<longrightarrow> remembered_whole c
              \<and> (\<exists>k. 1 \<le> k \<and> k \<le> 100
                     \<and> reqs (snd (snd (setMuted R T False c w)))
                         = reqs w @ [SetData ''player:volume'' (i32_value k)]))"
proof -
  have init: "remembered_positive R new_KEFSpeaker" "remembered_whole new_KEFSpeaker"
    by (simp_all add: remembered_positive_def remembered_whole_def new_KEFSpeaker_def)
  have A: "remembered_positive R c"
    using run_ops_positive [OF init(1), of T ops w0] assms by simp
  then obtain n where n: "ToNumber R (previousVolume c) = Some n" "js_gt0 n"
    by (cases "ToNumber R (previousVolume c)") (simp_all add: remembered_positive_def)
  have "reqs (snd (snd (setMuted R T False c w)))
               = reqs w @ [SetData ''player:volume''
                    (i32_value (case n of Fin r \<Rightarrow> clamp (round r) 0 100 | other \<Rightarrow> 100))]
           \<and> ((case n of Fin r \<Rightarrow> clamp (round r) 0 100 | other \<Rightarrow> 100) = 0)
               = (case n of Fin r \<Rightarrow> r < 1 / 2 | other \<Rightarrow> False)"
  proof (cases n)
    case (Fin r)
    then show ?thesis
      using setMuted_False_reqs [of R c r T w] n(1) clamp_round_zero [of r] by simp
  next
    case PosInf
    then show ?thesis using setMuted_False_reqs_PosInf [of R c T w] n(1) by simp
  qed (use n(2) in simp_all)
  then have B: "\<exists>n. ToNumber R (previousVolume c) = Some n \<and> js_gt0 n
           \<and> reqs (snd (snd (setMuted R T False c w)))
               = reqs w @ [SetData ''player:volume''
                    (i32_value (case n of Fin r \<Rightarrow> clamp (round r) 0 100 | other \<Rightarrow> 100))]
           \<and> ((case n of Fin r \<Rightarrow> clamp (round r) 0 100 | other \<Rightarrow> 100) = 0)
               = (case n of Fin r \<Rightarrow> r < 1 / 2 | other \<Rightarrow> False)"
    using n by blast
  have D: "remembered_whole c
              \<and> (\<exists>k. 1 \<le> k \<and> k \<le> 100
                     \<and> reqs (snd (snd (setMuted R T False c w)))
                         = reqs w @ [SetData ''player:volume'' (i32_value k)])"
    if h: "closed_under T S \<and> whole_volumes T S \<and> dev w0 \<in> S"
  proof -
    have cu: "closed_under T S" and wv: "whole_volumes T S" and d0: "dev w0 \<in> S"
      using h by simp_all
    have rw: "remembered_whole c"
      using run_ops_whole [OF cu wv d0 init(2), of R ops] assms by simp
    then obtain r where r: "previousVolume c = JNum r" "0 < r" "r = of_int \<lfloor>r\<rfloor>"
      by (cases "previousVolume c") (simp_all add: remembered_whole_def)
    have m: "ToNumber R (previousVolume c) = Some (Fin r)" using r(1) by simp
    show ?thesis
      using rw setMuted_False_reqs [OF m, of T w] clamp_round_whole [OF r(2,3)] by blast
  qed
  have D': "closed_under T S \<and> whole_volumes T S \<and> dev w0 \<in> S
          \<longrightarrow> remembered_whole c
              \<and> (\<exists>k. 1 \<le> k \<and> k \<le> 100
                     \<and> reqs (snd (snd (setMuted R T False c w)))
                         = reqs w @ [SetData ''player:volume'' (i32_value k)])"
    using D by blast
  show ?thesis by (rule conjI [OF A conjI [OF B D']])
qed

lemma scripted_closed: "closed_under scripted whole_scripts"
proof -
  have "snd (scripted d rq) \<in> whole_scripts" if "d \<in> whole_scripts" for d rq
    using that by (cases d) (simp_all add: whole_scripts_def)
  then show ?thesis by (simp add: closed_under_def)
qed

lemma scripted_whole: "whole_volumes scripted whole_scripts"
proof -
  have "case fst (scripted d (GetData ''player:volume'')) of
          Inl e \<Rightarrow> True | Inr response \<Rightarrow> integral_volume response"
    if "d \<in> whole_scripts" for d
    using that by (cases d) (simp_all add: whole_scripts_def)
  then show ?thesis by (simp add: whole_volumes_def)
qed

theorem unmute_writes_remembered_witness:
  "previousVolume (fst (run_ops no_numeric_strings scripted [SetMuted True]
        (new_KEFSpeaker, mock [Inr (JArr [i32_value 30]), Inr JNull, Inr JNull]))) = JNum 30
   \<and> reqs (snd (snd (setMuted no_numeric_strings scripted False
        (fst (run_ops no_numeric_strings scripted [SetMuted True]
                (new_KEFSpeaker, mock [Inr (JArr [i32_value 30]), Inr JNull, Inr JNull])))
        (snd (run_ops no_numeric_strings scripted [SetMuted True]
                (new_KEFSpeaker, mock [Inr (JArr [i32_value 30]), Inr JNull, Inr JNull]))))))
     = [GetData ''player:volume'', SetData ''player:volume'' (i32_value 0),
        SetData ''player:volume'' (i32_value 30)]"
proof -
  let ?w0 = "mock [Inr (JArr [i32_value 30]), Inr JNull, Inr JNull]"
  let ?run = "run_ops no_numeric_strings scripted [SetMuted True] (new_KEFSpeaker, ?w0)"
  have d0: "dev ?w0 \<in> whole_scripts"
    by (simp add: mock_def whole_scripts_def integral_volume_def i32_value_def)
  have run: "?run = (new_KEFSpeaker\<lparr>previousVolume := JNum 30, isMuted := True\<rparr>,
                     \<lparr>dev = [Inr JNull],
                      reqs = [GetData ''player:volume'',
                              SetData ''player:volume'' (i32_value 0)]\<rparr>)"
    by (simp add: setMuted_def setVolume_def getVolume_def getData_def setData_def request_def
        mock_def i32_value_def Let_def Math_round_def)
  have h: "?run = (fst ?run, snd ?run)" by simp
  from unmute_writes_remembered [OF h, where S = whole_scripts] scripted_closed scripted_whole d0
  show ?thesis by (simp only: run) (simp add: clamp_def round_def)
qed

section \<open>Power off and on again: the remembered source\<close>

lemma getSource_lastActive:
  "lastActiveSource (fst (snd (getSource T c w)))
     = (case fst (T (dev w) (GetData physicalSource_path)) of
          Inl e \<Rightarrow> lastActiveSource c
        | Inr response \<Rightarrow>
            (case observed_source response of None \<Rightarrow> lastActiveSource c | Some y \<Rightarrow> y))"
proof -
  obtain x d' where t: "T (dev w) (GetData physicalSource_path) = (x, d')"
    by (cases "T (dev w) (GetData physicalSource_path)")
  show ?thesis
  proof (cases x)
    case (Inl e)
    then show ?thesis using t by (simp add: getSource_def getData_def request_def)
  next
    case (Inr response)
    show ?thesis
    proof (cases "\<exists>s. js_get (js_index0 response) ''kefPhysicalSource'' = JStr s \<and> s \<noteq> []")
      case True
      then obtain s where s: "js_get (js_index0 response) ''kefPhysicalSource'' = JStr s" "s \<noteq> []"
        by blast
      have "T (dev w) (GetData physicalSource_path) = (Inr response, d')" using t Inr by simp
      then have "getSource T c w =
           (Inr (toLowerCase s),
            if toLowerCase s \<noteq> ''standby'' then c\<lparr>lastActiveSource := toLowerCase s\<rparr> else c,
            \<lparr>dev = d', reqs = reqs w @ [GetData physicalSource_path]\<rparr>)"
        using getSource_observed [of T w response d' s c] s by simp
      then show ?thesis
        using t Inr s by (simp add: observed_source_def)
    next
      case False
      then have "observed_source response = None"
        by (auto simp: observed_source_def split: jsval.splits)
      moreover have "fst (snd (getSource T c w)) = c"
        using t Inr False
        by (auto simp: getSource_def getData_def request_def Let_def split: jsval.splits)
      ultimately show ?thesis using t Inr by simp
    qed
  qed
qed

lemma setMuted_lastActive:
  "lastActiveSource (fst (snd (setMuted R T m c w))) = lastActiveSource c"
  by (simp add: setMuted_def Let_def split: prod.splits sum.splits option.splits)

lemma toggleMute_lastActive:
  "lastActiveSource (fst (snd (toggleMute R T c w))) = lastActiveSource c"
  by (cases "getMuted T c w")
     (auto simp: toggleMute_def setMuted_lastActive split: sum.splits)

lemma exec_op_lastActive:
  "lastActiveSource (fst (exec_op R T x (c, w)))
     = (case observes T x w of None \<Rightarrow> lastActiveSource c | Some y \<Rightarrow> y)"
proof (cases x)
  case GetSource
  then show ?thesis
    by (simp add: observes_def getSource_lastActive split: sum.splits)
next
  case TestConnection
  then show ?thesis
    by (simp add: observes_def testConnection_client getSource_lastActive split: sum.splits)
next
  case GetAllSettings
  then show ?thesis
    by (simp add: observes_def getAllSettings_client getSource_lastActive split: sum.splits)
next
  case GetPlaybackInfo
  then show ?thesis
    by (simp add: observes_def getPlaybackInfo_client getSource_lastActive split: sum.splits)
qed (simp_all add: observes_def setMuted_lastActive toggleMute_lastActive)

lemma run_ops_sees_no_other:
  "sees_no_other R T s ops (c, w) \<Longrightarrow> lastActiveSource c = s \<Longrightarrow>
     lastActiveSource (fst (run_ops R T ops (c, w))) = s"
proof (induction ops arbitrary: c w)
  case Nil
  then show ?case by simp
next
  case (Cons x xs)
  obtain c1 w1 where e: "exec_op R T x (c, w) = (c1, w1)" by (cases "exec_op R T x (c, w)")
  have "lastActiveSource c1 = s"
    using exec_op_lastActive [of R T x c w] e Cons.prems by (simp split: option.splits)
  moreover have "sees_no_other R T s xs (c1, w1)" using Cons.prems(1) e by simp
  ultimately show ?case using Cons.IH e by simp
qed

lemma toLowerCase_examples:
  "toLowerCase ''TV'' = ''tv''" "toLowerCase ''tv'' = ''tv''"
  "toLowerCase ''standby'' = ''standby''"
  by (simp_all add: toLowerCase_def lower_char_def)

lemma getPowerState_faithful:
  "dsource (dev w) \<noteq> [] \<Longrightarrow>
     getPowerState faithful_device w =
       (toLowerCase (dsource (dev w)) \<noteq> ''standby'',
        \<lparr>dev = dev w, reqs = reqs w @ [GetData physicalSource_path]\<rparr>)"
  by (simp add: getPowerState_def getData_def request_def physicalSource_path_def
      kefPhysicalSource_value_def)

lemma setPowerState_faithful:
  "setPowerState faithful_device on c w =
     (Inr (),
      \<lparr>dev = (dev w)\<lparr>dsource := (if on then lastActiveSource c else ''standby'')\<rparr>,
       reqs = reqs w @ [SetData physicalSource_path
                (kefPhysicalSource_value (if on then lastActiveSource c else ''standby''))]\<rparr>)"
  by (simp add: setPowerState_def setSource_def setData_def request_def physicalSource_path_def
      kefPhysicalSource_value_def)

lemma observed_source_faithful:
  "observed_source (JArr [kefPhysicalSource_value s])
     = (if s \<noteq> [] \<and> toLowerCase s \<noteq> ''standby'' then Some (toLowerCase s) else None)"
  by (simp add: observed_source_def kefPhysicalSource_value_def)

lemma getAllSettings_faithful_standby:
  "toLowerCase (dsource (dev w)) = ''standby'' \<Longrightarrow>
     getAllSettings faithful_device c w =
       (empty_settings\<lparr>st_standby := Some True, st_source := Some ''standby''\<rparr>, c,
        \<lparr>dev = dev w,
         reqs = reqs w @ [GetData physicalSource_path, GetData physicalSource_path]\<rparr>)"
proof -
  assume a: "toLowerCase (dsource (dev w)) = ''standby''"
  then have n: "dsource (dev w) \<noteq> []" by (auto simp: toLowerCase_def)
  show ?thesis
    using a n by (simp add: getAllSettings_def getPowerState_faithful getSource_faithful Let_def)
qed

text \<open>
  Claim C8.  Let a \<open>getSource\<close> read observe the source \<open>s\<close> in the response (the
  field \<open>kefPhysicalSource\<close> is there and, in lower case, is not \<open>"standby"\<close>).  Any
  operations may follow, before \<open>setPowerState(false)\<close> and between it and
  \<open>setPowerState(true)\<close>, whose source reads observe no other source: such a read
  may observe \<open>s\<close> again, read \<open>"standby"\<close>, carry no source, or fail.  Then
  \<open>setPowerState(false)\<close> writes the physical source \<open>"standby"\<close> and leaves the
  remembered last active source as it is, and \<open>setPowerState(true)\<close> writes the
  observed source, which is still the remembered one.
\<close>

theorem setPowerState_restores_source:
  assumes "T (dev w) (GetData physicalSource_path) = (Inr response, d')"
    and "js_get (js_index0 response) ''kefPhysicalSource'' = JStr s"
    and "s \<noteq> []"
    and "toLowerCase s \<noteq> ''standby''"
    and "getSource T c w = (r1, c1, w1)"
    and "sees_no_other R T (toLowerCase s) ops1 (c1, w1)"
    and "run_ops R T ops1 (c1, w1) = (c2, w2)"
    and "setPowerState T False c2 w2 = (r3, w3)"
    and "sees_no_other R T (toLowerCase s) ops2 (c2, w3)"
    and "run_ops R T ops2 (c2, w3) = (c4, w4)"
    and "setPowerState T True c4 w4 = (r5, w5)"
  shows "r1 = Inr (toLowerCase s)
         \<and> lastActiveSource c1 = toLowerCase s
         \<and> lastActiveSource c2 = toLowerCase s
         \<and> reqs w3 = reqs w2 @ [SetData physicalSource_path (kefPhysicalSource_value ''standby'')]
         \<and> lastActiveSource c4 = toLowerCase s
         \<and> reqs w5 = reqs w4 @ [SetData physicalSource_path (kefPhysicalSource_value (toLowerCase s))]"
proof -
  have g: "r1 = Inr (toLowerCase s) \<and> lastActiveSource c1 = toLowerCase s"
    using getSource_observed [of T w response d' s c] assms(1,2,3,4,5) by auto
  have k2: "lastActiveSource c2 = toLowerCase s"
    using run_ops_sees_no_other [OF assms(6), of ] g assms(7) by simp
  have off: "reqs w3 = reqs w2 @ [SetData physicalSource_path (kefPhysicalSource_value ''standby'')]"
    using reqs_setPowerState [of T False c2 w2] assms(8) by simp
  have k4: "lastActiveSource c4 = toLowerCase s"
    using run_ops_sees_no_other [OF assms(9) k2] assms(10) by simp
  have on: "reqs w5
              = reqs w4 @ [SetData physicalSource_path (kefPhysicalSource_value (lastActiveSource c4))]"
    using reqs_setPowerState [of T True c4 w4] assms(11) by simp
  show ?thesis using g k2 k4 off on by simp
qed

theorem setPowerState_restores_source_witness:
  "fst (getSource faithful_device new_KEFSpeaker (speaker_at 30 ''TV'' JNull)) = Inr ''tv''
   \<and> st_source (fst (getAllSettings faithful_device
        (fst (run_ops no_numeric_strings faithful_device [SetVolume 20, GetSource]
                (snd (getSource faithful_device new_KEFSpeaker (speaker_at 30 ''TV'' JNull)))))
        (snd (setPowerState faithful_device False
           (fst (run_ops no_numeric_strings faithful_device [SetVolume 20, GetSource]
                   (snd (getSource faithful_device new_KEFSpeaker (speaker_at 30 ''TV'' JNull)))))
           (snd (run_ops no_numeric_strings faithful_device [SetVolume 20, GetSource]
                   (snd (getSource faithful_device new_KEFSpeaker (speaker_at 30 ''TV'' JNull)))))))))
       = Some ''standby''
   \<and> reqs (snd (setPowerState faithful_device True
         (fst (run_ops no_numeric_strings faithful_device [GetAllSettings, GetSource]
            (fst (run_ops no_numeric_strings faithful_device [SetVolume 20, GetSource]
                    (snd (getSource faithful_device new_KEFSpeaker (speaker_at 30 ''TV'' JNull)))),
             snd (setPowerState faithful_device False
               (fst (run_ops no_numeric_strings faithful_device [SetVolume 20, GetSource]
                   (snd (getSource faithful_device new_KEFSpeaker (speaker_at 30 ''TV'' JNull)))))
               (snd (run_ops no_numeric_strings faithful_device [SetVolume 20, GetSource]
                   (snd (getSource faithful_device new_KEFSpeaker (speaker_at 30 ''TV'' JNull)))))))))
         (snd (run_ops no_numeric_strings faithful_device [GetAllSettings, GetSource]
            (fst (run_ops no_numeric_strings faithful_device [SetVolume 20, GetSource]
                    (snd (getSource faithful_device new_KEFSpeaker (speaker_at 30 ''TV'' JNull)))),
             snd (setPowerState faithful_device False
               (fst (run_ops no_numeric_strings faithful_device [SetVolume 20, GetSource]
                   (snd (getSource faithful_device new_KEFSpeaker (speaker_at 30 ''TV'' JNull)))))
               (snd (run_ops no_numeric_strings faithful_device [SetVolume 20, GetSource]
                   (snd (getSource faithful_device new_KEFSpeaker (speaker_at 30 ''TV'' JNull)))))))))))
     = [GetData physicalSource_path,
        SetData ''player:volume'' (i32_value 20),
        GetData physicalSource_path,
        SetData physicalSource_path (kefPhysicalSource_value ''standby''),
        GetData physicalSource_path,
        GetData physicalSource_path,
        GetData physicalSource_path,
        SetData physicalSource_path (kefPhysicalSource_value ''tv'')]"
proof -
  let ?R = no_numeric_strings
  let ?c = "new_KEFSpeaker\<lparr>lastActiveSource := ''tv''\<rparr>"
  let ?D = "\<lparr>dvolume = 30, dsource = ''TV'', dplayer = JNull, dsubwooferGain = 0\<rparr>"
  let ?E = "\<lparr>dvolume = 20, dsource = ''TV'', dplayer = JNull, dsubwooferGain = 0\<rparr>"
  let ?F = "\<lparr>dvolume = 20, dsource = ''standby'', dplayer = JNull, dsubwooferGain = 0\<rparr>"
  let ?G = "\<lparr>dvolume = 20, dsource = ''tv'', dplayer = JNull, dsubwooferGain = 0\<rparr>"
  let ?q1 = "[GetData physicalSource_path]"
  let ?q2 = "[GetData physicalSource_path, SetData ''player:volume'' (i32_value 20),
              GetData physicalSource_path]"
  let ?q3 = "[GetData physicalSource_path, SetData ''player:volume'' (i32_value 20),
              GetData physicalSource_path,
              SetData physicalSource_path (kefPhysicalSource_value ''standby'')]"
  let ?q3a = "[GetData physicalSource_path, SetData ''player:volume'' (i32_value 20),
              GetData physicalSource_path,
              SetData physicalSource_path (kefPhysicalSource_value ''standby''),
              GetData physicalSource_path, GetData physicalSource_path]"
  let ?q4 = "[GetData physicalSource_path, SetData ''player:volume'' (i32_value 20),
              GetData physicalSource_path,
              SetData physicalSource_path (kefPhysicalSource_value ''standby''),
              GetData physicalSource_path, GetData physicalSource_path,
              GetData physicalSource_path]"
  let ?q5 = "[GetData physicalSource_path, SetData ''player:volume'' (i32_value 20),
              GetData physicalSource_path,
              SetData physicalSource_path (kefPhysicalSource_value ''standby''),
              GetData physicalSource_path, GetData physicalSource_path,
              GetData physicalSource_path,
              SetData physicalSource_path (kefPhysicalSource_value ''tv'')]"
  note lc = toLowerCase_examples
  have w: "speaker_at 30 ''TV'' JNull = \<lparr>dev = ?D, reqs = []\<rparr>" by (simp add: speaker_at_def)
  have g: "getSource faithful_device new_KEFSpeaker \<lparr>dev = ?D, reqs = []\<rparr>
             = (Inr ''tv'', ?c, \<lparr>dev = ?D, reqs = ?q1\<rparr>)"
    by (simp add: getSource_faithful lc)
  have run1: "run_ops ?R faithful_device [SetVolume 20, GetSource] (?c, \<lparr>dev = ?D, reqs = ?q1\<rparr>)
                = (?c, \<lparr>dev = ?E, reqs = ?q2\<rparr>)"
    by (simp add: setVolume_faithful getSource_faithful clamp_def round_def lc)
  have off: "setPowerState faithful_device False ?c \<lparr>dev = ?E, reqs = ?q2\<rparr>
               = (Inr (), \<lparr>dev = ?F, reqs = ?q3\<rparr>)"
    by (simp add: setPowerState_faithful)
  have all: "getAllSettings faithful_device ?c \<lparr>dev = ?F, reqs = ?q3\<rparr>
               = (empty_settings\<lparr>st_standby := Some True, st_source := Some ''standby''\<rparr>, ?c,
                  \<lparr>dev = ?F, reqs = ?q3a\<rparr>)"
    by (simp add: getAllSettings_faithful_standby lc)
  have run2: "run_ops ?R faithful_device [GetAllSettings, GetSource] (?c, \<lparr>dev = ?F, reqs = ?q3\<rparr>)
                = (?c, \<lparr>dev = ?F, reqs = ?q4\<rparr>)"
    by (simp add: all getSource_faithful lc)
  have on: "setPowerState faithful_device True ?c \<lparr>dev = ?F, reqs = ?q4\<rparr>
               = (Inr (), \<lparr>dev = ?G, reqs = ?q5\<rparr>)"
    by (simp add: setPowerState_faithful)
  have h1: "faithful_device (dev \<lparr>dev = ?D, reqs = []\<rparr>) (GetData physicalSource_path)
              = (Inr (JArr [kefPhysicalSource_value ''TV'']), ?D)"
    by (simp add: physicalSource_path_def)
  have h2: "js_get (js_index0 (JArr [kefPhysicalSource_value ''TV''])) ''kefPhysicalSource''
              = JStr ''TV''"
    by (simp add: kefPhysicalSource_value_def)
  have h3: "''TV'' \<noteq> []" by simp
  have ne: "physicalSource_path \<noteq> ''player:volume''" by (simp add: physicalSource_path_def)
  have h4: "toLowerCase ''TV'' \<noteq> ''standby''" by (simp add: lc)
  have h6: "sees_no_other ?R faithful_device (toLowerCase ''TV'') [SetVolume 20, GetSource]
              (?c, \<lparr>dev = ?D, reqs = ?q1\<rparr>)"
    by (simp add: observes_def ne observed_source_faithful
        setVolume_faithful clamp_def round_def lc)
  have h9: "sees_no_other ?R faithful_device (toLowerCase ''TV'') [GetAllSettings, GetSource]
              (?c, \<lparr>dev = ?F, reqs = ?q3\<rparr>)"
    by (simp add: all observes_def ne observed_source_faithful
        getPowerState_faithful lc)
  from setPowerState_restores_source [OF h1 h2 h3 h4 g h6 run1 off h9 run2 on]
  show ?thesis
    by (simp only: w g run1 off all run2 on fst_conv snd_conv) (simp add: lc)
qed

section \<open>Polling a speaker that does not answer\<close>

lemma updateAlbumArt_device:
  "isAvailable (fst (snd (updateAlbumArt T f dv c w))) = isAvailable dv
   \<and> pollInterval (fst (snd (updateAlbumArt T f dv c w))) = pollInterval dv"
  by (simp add: updateAlbumArt_def split: prod.splits sum.splits)

text \<open>
  Whatever the speaker answers, a run of \<open>poll\<close> in which no platform call throws
  ends with the device Available and the failure count 0.
\<close>

lemma poll_quiet:
  "isAvailable (fst (poll T quiet st))
   \<and> failureCount (fst (snd (poll T quiet st))) = 0
   \<and> normalInterval (fst (snd (poll T quiet st))) = normalInterval (fst (snd st))
   \<and> currentInterval (fst (snd (poll T quiet st)))
       = (if isAvailable (fst st) then currentInterval (fst (snd st))
          else normalInterval (fst (snd st)))
   \<and> pollInterval (fst (poll T quiet st))
       = (if isAvailable (fst st) \<or> currentInterval (fst (snd st)) = normalInterval (fst (snd st))
          then pollInterval (fst st) else Some (normalInterval (fst (snd st))))"
proof -
  obtain dv pl c w where st: "st = (dv, pl, c, w)" by (cases st)
  obtain s c1 w1 where g: "getAllSettings T c w = (s, c1, w1)" by (cases "getAllSettings T c w")
  obtain c2 w2 where m: "updateMusicMetadata T c1 w1 = (c2, w2)"
    by (cases "updateMusicMetadata T c1 w1")
  have "\<exists>dv2 pl2. back_online quiet (dv, pl) = Inr (dv2, pl2)"
    by (simp add: back_online_def quiet_def Let_def)
  then obtain dv2 pl2 where b: "back_online quiet (dv, pl) = Inr (dv2, pl2)" by blast
  have b2: "isAvailable dv2 \<and> normalInterval pl2 = normalInterval pl
        \<and> currentInterval pl2 = (if isAvailable dv then currentInterval pl else normalInterval pl)
        \<and> pollInterval dv2
            = (if isAvailable dv \<or> currentInterval pl = normalInterval pl then pollInterval dv
               else Some (normalInterval pl))"
    using b by (auto simp: back_online_def quiet_def Let_def split: if_splits)
  obtain calls dv3 c3 w3 where u: "updateAlbumArt T False dv2 c2 w2 = (calls, dv3, c3, w3)"
    by (cases "updateAlbumArt T False dv2 c2 w2")
  have d3: "isAvailable dv3 = isAvailable dv2 \<and> pollInterval dv3 = pollInterval dv2"
    using updateAlbumArt_device [of T False dv2 c2 w2] u by simp
  have "poll T quiet (dv, pl, c, w) = (dv3, pl2\<lparr>failureCount := 0\<rparr>, c3, w3)"
    using g m b u by (simp add: poll_def quiet_def)
  then show ?thesis using b2 d3 st by simp
qed

lemma started_state:
  "fst (started (Some 5) dv w)
     = dv\<lparr>pollInterval := Some (if isAvailable dv then 5000 else 30000)\<rparr>
   \<and> fst (snd (started (Some 5) dv w))
     = \<lparr>normalInterval = 5000, currentInterval = (if isAvailable dv then 5000 else 30000),
        failureCount = 0\<rparr>"
  by (simp add: started_def startPolling_def retryInterval_def Let_def)

text \<open>
  Claim C1 at a speaker that does not answer.  The device is Available and polls every
  5 seconds; every request of the three polls that follow times out.  The device is
  Available after each of them, the failure count is 0 and the timer still runs at
  5000 ms: \<open>getAllSettings\<close> catches the failures of its reads, so the \<open>try\<close> of
  \<open>poll\<close> runs to its end.  A device that starts Unavailable polls every 30000 ms,
  and one such unanswered poll marks it Available and sets the timer to 5000 ms.
\<close>

theorem poll_unanswered_speaker:
  "isAvailable (fst (polls scripted [quiet] (started (Some 5) connected_device (mock []))))
   \<and> isAvailable (fst (polls scripted [quiet, quiet]
                         (started (Some 5) connected_device (mock []))))
   \<and> isAvailable (fst (polls scripted [quiet, quiet, quiet]
                         (started (Some 5) connected_device (mock []))))
   \<and> failureCount (fst (snd (polls scripted [quiet, quiet, quiet]
                                (started (Some 5) connected_device (mock []))))) = 0
   \<and> pollInterval (fst (polls scripted [quiet, quiet, quiet]
                          (started (Some 5) connected_device (mock [])))) = Some 5000
   \<and> reqs (snd (snd (snd (polls scripted [quiet]
                             (started (Some 5) connected_device (mock []))))))
       = [GetData physicalSource_path, GetData physicalSource_path,
          GetData playerData_path, GetData physicalSource_path,
          GetData physicalSource_path]
   \<and> dev (snd (snd (snd (polls scripted [quiet]
                            (started (Some 5) connected_device (mock [])))))) = []
   \<and> \<not> isAvailable (fst (started (Some 5) disconnected_device (mock [])))
   \<and> pollInterval (fst (started (Some 5) disconnected_device (mock []))) = Some 30000
   \<and> isAvailable (fst (polls scripted [quiet]
                         (started (Some 5) disconnected_device (mock []))))
   \<and> pollInterval (fst (polls scripted [quiet]
                          (started (Some 5) disconnected_device (mock [])))) = Some 5000"
proof -
  have r: "snd (snd (snd (poll scripted quiet (started (Some 5) connected_device (mock [])))))
       = \<lparr>dev = [], reqs = [GetData physicalSource_path, GetData physicalSource_path,
          GetData playerData_path, GetData physicalSource_path,
          GetData physicalSource_path]\<rparr>"
    by (simp add: poll_def started_def startPolling_def connected_device_def mock_def quiet_def
        back_online_def getAllSettings_def getPowerState_def getSource_def getData_def
        request_def updateMusicMetadata_def getPlaybackInfo_def isPlaying_def
        updateAlbumArt_def Let_def)
  have a: "isAvailable connected_device" "\<not> isAvailable disconnected_device"
    by (simp_all add: connected_device_def disconnected_device_def)
  show ?thesis
    by (simp add: poll_quiet started_state r a)
qed

end
